theory Spec2Isabelle
  imports Main "HOL-Library.AList"
begin

section \<open>Errors thrown by the shell server\<close>

text \<open>
  Three kinds of JavaScript exception reach the handlers of \<^verbatim>\<open>proxy.js\<close>:
  \<^verbatim>\<open>new Meteor.Error(code, reason)\<close>, a plain \<^verbatim>\<open>new Error(message)\<close>, and an
  exception of the Cap'n Proto RPC layer, which carries a \<^verbatim>\<open>kjType\<close> and a message.
\<close>

datatype js_error =
    MeteorError nat string
  | PlainError string
  | KjError string string

section \<open>API host ids (\<^verbatim>\<open>db.js\<close>)\<close>

text \<open>
  \<^verbatim>\<open>apiHostIdHashForToken\<close> exists twice in the source, once over Node's
  \<^verbatim>\<open>Crypto.createHash("sha256")...digest("hex")\<close> and once over the browser's
  \<^verbatim>\<open>SHA256\<close>; the hex digest function is the parameter \<open>sha256hex\<close>.
  \<^verbatim>\<open>.slice(0, 32)\<close> keeps the first 32 hex digits, that is 128 bits.
\<close>

definition apiHostIdHashForToken :: "(string \<Rightarrow> string) \<Rightarrow> string \<Rightarrow> string" where
  "apiHostIdHashForToken sha256hex token = take 32 (sha256hex (''x'' @ token))"

definition apiHostIdForToken :: "(string \<Rightarrow> string) \<Rightarrow> string \<Rightarrow> string" where
  "apiHostIdForToken sha256hex token = ''api-'' @ apiHostIdHashForToken sha256hex token"

section \<open>SHA-256\<close>

text \<open>
  The digest behind \<^verbatim>\<open>apiHostIdHashForToken\<close> is library code (Node's
  \<^verbatim>\<open>crypto\<close> module on the server, \<^verbatim>\<open>SHA256\<close> in the browser). It is modelled here
  after FIPS 180-4, so that host ids can be computed for concrete tokens. A string is
  hashed as its bytes, which is what the libraries do for a string of ASCII characters.
\<close>

text \<open>
  Words are lists of bits, most significant bit first: 32 bits for the words of the
  algorithm, 8 for a byte, 4 for a hexadecimal digit.
\<close>

type_synonym bits = "bool list"
type_synonym sha_state = "bits \<times> bits \<times> bits \<times> bits \<times> bits \<times> bits \<times> bits \<times> bits"

definition hex_table :: "(char \<times> bits) list" where
  "hex_table =
    [(CHR ''0'', [False, False, False, False]), (CHR ''1'', [False, False, False, True]),
     (CHR ''2'', [False, False, True, False]), (CHR ''3'', [False, False, True, True]),
     (CHR ''4'', [False, True, False, False]), (CHR ''5'', [False, True, False, True]),
     (CHR ''6'', [False, True, True, False]), (CHR ''7'', [False, True, True, True]),
     (CHR ''8'', [True, False, False, False]), (CHR ''9'', [True, False, False, True]),
     (CHR ''a'', [True, False, True, False]), (CHR ''b'', [True, False, True, True]),
     (CHR ''c'', [True, True, False, False]), (CHR ''d'', [True, True, False, True]),
     (CHR ''e'', [True, True, True, False]), (CHR ''f'', [True, True, True, True])]"

definition bits_of_hex :: "string \<Rightarrow> bits" where
  "bits_of_hex s = concat (map (\<lambda>c. case map_of hex_table c of Some b \<Rightarrow> b | None \<Rightarrow> []) s)"

fun hex_of_bits :: "bits \<Rightarrow> string" where
  "hex_of_bits (a # b # c # d # rest) =
     (case map_of (map (\<lambda>(ch, bs). (bs, ch)) hex_table) [a, b, c, d] of
        Some ch \<Rightarrow> ch # hex_of_bits rest | None \<Rightarrow> hex_of_bits rest)"
| "hex_of_bits _ = []"

definition bits_of_char :: "char \<Rightarrow> bits" where
  "bits_of_char c = (case c of Char b0 b1 b2 b3 b4 b5 b6 b7 \<Rightarrow> [b7, b6, b5, b4, b3, b2, b1, b0])"

definition xor_bits :: "bits \<Rightarrow> bits \<Rightarrow> bits" where
  "xor_bits xs ys = map2 (\<lambda>x y. x \<noteq> y) xs ys"

definition and_bits :: "bits \<Rightarrow> bits \<Rightarrow> bits" where
  "and_bits xs ys = map2 (\<lambda>x y. x \<and> y) xs ys"

definition not_bits :: "bits \<Rightarrow> bits" where
  "not_bits xs = map Not xs"

text \<open>Addition modulo \<open>2 ^ n\<close> of two words of \<open>n\<close> bits: the carry out and the sum.\<close>

fun add_carry :: "bits \<Rightarrow> bits \<Rightarrow> bool \<times> bits" where
  "add_carry (x # xs) (y # ys) =
     (case add_carry xs ys of
        (c, s) \<Rightarrow> ((x \<and> y) \<or> (c \<and> (x \<noteq> y)), ((x \<noteq> y) \<noteq> c) # s))"
| "add_carry _ _ = (False, [])"

definition add_bits :: "bits \<Rightarrow> bits \<Rightarrow> bits" where
  "add_bits xs ys = snd (add_carry xs ys)"

definition rotr :: "nat \<Rightarrow> bits \<Rightarrow> bits" where
  "rotr n xs = drop (length xs - n) xs @ take (length xs - n) xs"

definition shr :: "nat \<Rightarrow> bits \<Rightarrow> bits" where
  "shr n xs = replicate n False @ take (length xs - n) xs"

definition K256 :: "bits list" where
  "K256 = map bits_of_hex [
  ''428a2f98'', ''71374491'', ''b5c0fbcf'', ''e9b5dba5'', ''3956c25b'', ''59f111f1'', ''923f82a4'', ''ab1c5ed5'',
  ''d807aa98'', ''12835b01'', ''243185be'', ''550c7dc3'', ''72be5d74'', ''80deb1fe'', ''9bdc06a7'', ''c19bf174'',
  ''e49b69c1'', ''efbe4786'', ''0fc19dc6'', ''240ca1cc'', ''2de92c6f'', ''4a7484aa'', ''5cb0a9dc'', ''76f988da'',
  ''983e5152'', ''a831c66d'', ''b00327c8'', ''bf597fc7'', ''c6e00bf3'', ''d5a79147'', ''06ca6351'', ''14292967'',
  ''27b70a85'', ''2e1b2138'', ''4d2c6dfc'', ''53380d13'', ''650a7354'', ''766a0abb'', ''81c2c92e'', ''92722c85'',
  ''a2bfe8a1'', ''a81a664b'', ''c24b8b70'', ''c76c51a3'', ''d192e819'', ''d6990624'', ''f40e3585'', ''106aa070'',
  ''19a4c116'', ''1e376c08'', ''2748774c'', ''34b0bcb5'', ''391c0cb3'', ''4ed8aa4a'', ''5b9cca4f'', ''682e6ff3'',
  ''748f82ee'', ''78a5636f'', ''84c87814'', ''8cc70208'', ''90befffa'', ''a4506ceb'', ''bef9a3f7'', ''c67178f2'']"

definition H256 :: sha_state where
  "H256 = (bits_of_hex ''6a09e667'', bits_of_hex ''bb67ae85'', bits_of_hex ''3c6ef372'',
           bits_of_hex ''a54ff53a'', bits_of_hex ''510e527f'', bits_of_hex ''9b05688c'',
           bits_of_hex ''1f83d9ab'', bits_of_hex ''5be0cd19'')"

definition ssig0 :: "bits \<Rightarrow> bits" where "ssig0 x = xor_bits (xor_bits (rotr 7 x) (rotr 18 x)) (shr 3 x)"
definition ssig1 :: "bits \<Rightarrow> bits" where "ssig1 x = xor_bits (xor_bits (rotr 17 x) (rotr 19 x)) (shr 10 x)"
definition bsig0 :: "bits \<Rightarrow> bits" where "bsig0 x = xor_bits (xor_bits (rotr 2 x) (rotr 13 x)) (rotr 22 x)"
definition bsig1 :: "bits \<Rightarrow> bits" where "bsig1 x = xor_bits (xor_bits (rotr 6 x) (rotr 11 x)) (rotr 25 x)"
definition ch :: "bits \<Rightarrow> bits \<Rightarrow> bits \<Rightarrow> bits" where
  "ch x y z = xor_bits (and_bits x y) (and_bits (not_bits x) z)"
definition maj :: "bits \<Rightarrow> bits \<Rightarrow> bits \<Rightarrow> bits" where
  "maj x y z = xor_bits (xor_bits (and_bits x y) (and_bits x z)) (and_bits y z)"

definition sha_round :: "bits \<Rightarrow> bits \<Rightarrow> sha_state \<Rightarrow> sha_state" where
  "sha_round k w st =
     (case st of (a, b, c, d, e, f, g, h) \<Rightarrow>
        (let t1 = add_bits (add_bits (add_bits (add_bits h (bsig1 e)) (ch e f g)) k) w;
             t2 = add_bits (bsig0 a) (maj a b c)
         in (add_bits t1 t2, a, b, c, add_bits d t1, e, f, g)))"

text \<open>
  The 64 rounds, one per constant. \<open>ws\<close> is the window of the sixteen most recent
  words of the message schedule, oldest first; its head is the word of this round.
\<close>

fun rounds :: "bits list \<Rightarrow> bits list \<Rightarrow> sha_state \<Rightarrow> sha_state" where
  "rounds [] ws st = st"
| "rounds (k # ks) ws st =
     rounds ks
       (tl ws @ [add_bits (add_bits (add_bits (ssig1 (ws ! 14)) (ws ! 9)) (ssig0 (ws ! 1))) (ws ! 0)])
       (sha_round k (hd ws) st)"

text \<open>Cutting a list into pieces of \<open>n\<close> elements.\<close>

fun blocks :: "nat \<Rightarrow> 'a list \<Rightarrow> 'a list list" where
  "blocks n [] = []"
| "blocks n (x # xs) = (x # take (n - 1) xs) # blocks n (drop (n - 1) xs)"

definition add_state :: "sha_state \<Rightarrow> sha_state \<Rightarrow> sha_state" where
  "add_state s t =
     (case s of (a, b, c, d, e, f, g, h) \<Rightarrow>
        case t of (a', b', c', d', e', f', g', h') \<Rightarrow>
          (add_bits a a', add_bits b b', add_bits c c', add_bits d d', add_bits e e',
           add_bits f f', add_bits g g', add_bits h h'))"

definition compress :: "sha_state \<Rightarrow> bits \<Rightarrow> sha_state" where
  "compress st block = add_state st (rounds K256 (blocks 32 block) st)"

fun bits_of_nat :: "nat \<Rightarrow> nat \<Rightarrow> bits" where
  "bits_of_nat 0 n = []"
| "bits_of_nat (Suc k) n = bits_of_nat k (n div 2) @ [odd n]"

text \<open>
  Padding: a one bit, zero bits up to 448 modulo 512, and the message length in bits as
  a 64-bit number.
\<close>

definition pad :: "bits \<Rightarrow> bits" where
  "pad m = (let l = length m; z = (959 - l mod 512) mod 512
            in m @ [True] @ replicate z False @ bits_of_nat 64 l)"

definition sha256 :: "bits \<Rightarrow> bits" where
  "sha256 m =
     (case foldl compress H256 (blocks 512 (pad m)) of
        (a, b, c, d, e, f, g, h) \<Rightarrow> a @ b @ c @ d @ e @ f @ g @ h)"

definition bits_of_string :: "string \<Rightarrow> bits" where
  "bits_of_string s = concat (map bits_of_char s)"

definition sha256hex :: "string \<Rightarrow> string" where
  "sha256hex s = hex_of_bits (sha256 (bits_of_string s))"

text \<open>
  The host id as the specification words it: \<open>hash(hash("x" + token))\<close>, truncated to
  128 bits, hex-encoded.
\<close>

definition double_hash_host_id :: "string \<Rightarrow> string" where
  "double_hash_host_id token =
     ''api-'' @ hex_of_bits (take 128 (sha256 (sha256 (bits_of_string (''x'' @ token)))))"

section \<open>Webkey validation (\<^verbatim>\<open>validateWebkey\<close> in \<^verbatim>\<open>proxy.js\<close>)\<close>

text \<open>
  A document of the \<^verbatim>\<open>ApiTokens\<close> collection, with the fields \<^verbatim>\<open>validateWebkey\<close>
  reads. Dates are milliseconds since the epoch (\<^verbatim>\<open>getTime()\<close>); an absent or
  \<^verbatim>\<open>null\<close> field is \<open>None\<close>. \<open>owner\<close> holds the property names of the
  \<^verbatim>\<open>owner\<close> object, which is what \<^verbatim>\<open>"webkey" in apiToken.owner\<close> inspects.
\<close>

record api_token =
  token_id :: string
  revoked :: bool
  owner :: "string list option"
  expires :: "int option"
  expiresIfUnused :: "int option"
  objectId :: "string option"
  frontendRef :: "string option"

type_synonym api_tokens = "string \<rightharpoonup> api_token"

text \<open>\<^verbatim>\<open>ApiTokens.update(id, { $set: { expiresIfUnused: v } })\<close>; no document, no change.\<close>

definition update_expiresIfUnused :: "api_tokens \<Rightarrow> string \<Rightarrow> int option \<Rightarrow> api_tokens" where
  "update_expiresIfUnused db i v =
     (case db i of None \<Rightarrow> db | Some t \<Rightarrow> db(i \<mapsto> t\<lparr>expiresIfUnused := v\<rparr>))"

text \<open>
  The six \<^verbatim>\<open>throw\<close> statements of \<^verbatim>\<open>validateWebkey\<close>, in source order, and the
  \<^verbatim>\<open>Meteor.Error\<close> each one constructs. Two of them build the same error.
\<close>

datatype webkey_throw =
    InvalidToken | RevokedToken | NonWebkeyOwner | ExpiredToken | ExpiredUnusedToken
  | NonWebviewToken

fun webkey_error :: "webkey_throw \<Rightarrow> js_error" where
  "webkey_error InvalidToken = MeteorError 403 ''Invalid authorization token''"
| "webkey_error RevokedToken = MeteorError 403 ''Authorization token has been revoked''"
| "webkey_error NonWebkeyOwner = MeteorError 403 ''Unauthorized to open non-webkey token.''"
| "webkey_error ExpiredToken = MeteorError 403 ''Authorization token expired''"
| "webkey_error ExpiredUnusedToken = MeteorError 403 ''Authorization token expired''"
| "webkey_error NonWebviewToken = MeteorError 403 ''ApiToken refers to a non-webview Capability.''"

text \<open>
  \<open>validateWebkey_at db now apiToken refreshedExpiration\<close> runs the body of
  \<^verbatim>\<open>validateWebkey\<close> at time \<open>now\<close> (\<^verbatim>\<open>Date.now()\<close>) over the collection
  \<open>db\<close>. It returns the \<^verbatim>\<open>throw\<close> statement that ended the call (\<open>None\<close> for a
  normal return) and the collection afterwards.
\<close>

definition validateWebkey_at ::
  "api_tokens \<Rightarrow> int \<Rightarrow> api_token option \<Rightarrow> int option \<Rightarrow> webkey_throw option \<times> api_tokens" where
  "validateWebkey_at db now apiToken refreshedExpiration =
     (case apiToken of
        None \<Rightarrow> (Some InvalidToken, db)
      | Some tok \<Rightarrow>
          if revoked tok then (Some RevokedToken, db)
          else if (case owner tok of None \<Rightarrow> False | Some ks \<Rightarrow> ''webkey'' \<notin> set ks)
            then (Some NonWebkeyOwner, db)
          else if (case expires tok of None \<Rightarrow> False | Some t \<Rightarrow> t \<le> now)
            then (Some ExpiredToken, db)
          else
            (case
               (case expiresIfUnused tok of
                  None \<Rightarrow> Inr db
                | Some t \<Rightarrow>
                    if t \<le> now then Inl ExpiredUnusedToken
                    else
                      (case refreshedExpiration of
                         Some r \<Rightarrow> Inr (update_expiresIfUnused db (token_id tok) (Some r))
                       | None \<Rightarrow> Inr (update_expiresIfUnused db (token_id tok) None)))
             of
               Inl thrown \<Rightarrow> (Some thrown, db)
             | Inr db' \<Rightarrow>
                 if objectId tok \<noteq> None \<or> frontendRef tok \<noteq> None
                 then (Some NonWebviewToken, db')
                 else (None, db')))"

definition validateWebkey ::
  "api_tokens \<Rightarrow> int \<Rightarrow> api_token option \<Rightarrow> int option \<Rightarrow> js_error option \<times> api_tokens" where
  "validateWebkey db now apiToken refreshedExpiration =
     (case validateWebkey_at db now apiToken refreshedExpiration of
        (thrown, db') \<Rightarrow> (map_option webkey_error thrown, db'))"

text \<open>
  The callers look the token up by its hashed id right before validating it:
  \<^verbatim>\<open>validateWebkey(ApiTokens.findOne(hashedToken), ...)\<close>.
\<close>

definition validate_by_id ::
  "api_tokens \<Rightarrow> int \<Rightarrow> string \<Rightarrow> int option \<Rightarrow> webkey_throw option \<times> api_tokens" where
  "validate_by_id db now hashedToken refreshedExpiration =
     validateWebkey_at db now (db hashedToken) refreshedExpiration"

text \<open>
  Successive validations of one token, each at its own time and with its own refresh
  deadline; the list of the outcomes and the collection at the end.
\<close>

fun validate_runs ::
  "api_tokens \<Rightarrow> string \<Rightarrow> (int \<times> int option) list \<Rightarrow> webkey_throw option list \<times> api_tokens" where
  "validate_runs db hashedToken [] = ([], db)"
| "validate_runs db hashedToken ((now, refreshed) # rest) =
     (case validate_by_id db now hashedToken refreshed of
        (r, db') \<Rightarrow> (case validate_runs db' hashedToken rest of (rs, db'') \<Rightarrow> (r # rs, db'')))"

text \<open>The HTTP classes of the specification's error taxonomy.\<close>

definition is_not_found :: "js_error \<Rightarrow> bool" where
  "is_not_found e = (case e of MeteorError c r \<Rightarrow> c = 404 \<or> c = 410 | _ \<Rightarrow> False)"

definition is_forbidden :: "js_error \<Rightarrow> bool" where
  "is_forbidden e = (case e of MeteorError c r \<Rightarrow> c = 403 | _ \<Rightarrow> False)"


text \<open>Sample token documents: unused with an idle deadline, revoked, and a raw capability.\<close>

definition unused_token :: api_token where
  "unused_token = \<lparr>token_id = ''h1'', revoked = False, owner = None, expires = None,
     expiresIfUnused = Some 100, objectId = None, frontendRef = None\<rparr>"

definition revoked_token :: api_token where
  "revoked_token = \<lparr>token_id = ''h2'', revoked = True, owner = None, expires = None,
     expiresIfUnused = None, objectId = None, frontendRef = None\<rparr>"

definition capability_token :: api_token where
  "capability_token = \<lparr>token_id = ''h3'', revoked = False, owner = Some [''webkey''],
     expires = Some 900, expiresIfUnused = Some 100, objectId = Some ''obj'', frontendRef = None\<rparr>"

section \<open>Backend health check (\<^verbatim>\<open>proxy.js\<close>, the 30-second interval)\<close>

text \<open>
  The module state touched by the interval callback: the two \<^verbatim>\<open>let\<close> variables
  \<^verbatim>\<open>backendHealthy\<close> and \<^verbatim>\<open>disconnectCount\<close>, the number of times the callback has
  closed and remade \<^verbatim>\<open>sandstormBackendConnection\<close>, and whether \<^verbatim>\<open>process.abort()\<close>
  has been called. An aborted process runs nothing further.
\<close>

record health =
  backendHealthy :: bool
  disconnectCount :: nat
  reconnects :: nat
  aborted :: bool

definition health_init :: health where
  "health_init = \<lparr>backendHealthy = True, disconnectCount = 0, reconnects = 0, aborted = False\<rparr>"

text \<open>
  One run of the callback. \<^verbatim>\<open>disconnectCount++ > 2\<close> compares the value before the
  increment. After the check a new ping is sent with \<^verbatim>\<open>backendHealthy = false\<close>.
\<close>

definition tick :: "health \<Rightarrow> health" where
  "tick s =
     (if aborted s then s
      else if \<not> backendHealthy s then
        (if disconnectCount s > 2
         then s\<lparr>disconnectCount := disconnectCount s + 1, aborted := True\<rparr>
         else s\<lparr>disconnectCount := disconnectCount s + 1, reconnects := reconnects s + 1,
                backendHealthy := False\<rparr>)
      else s\<lparr>backendHealthy := False\<rparr>)"

text \<open>
  Between two ticks a ping either resolves, which runs \<^verbatim>\<open>backendHealthy = true\<close>, or
  none does (the ping is rejected or never answered), which leaves the flag as it is.
\<close>

definition ping_result :: "bool \<Rightarrow> health \<Rightarrow> health" where
  "ping_result answered s =
     (if aborted s then s else if answered then s\<lparr>backendHealthy := True\<rparr> else s)"

text \<open>
  The process after its first tick, and its run over the later ticks: each list element
  says whether a ping was answered between the previous tick and this one.
\<close>

definition health_started :: health where
  "health_started = tick health_init"

fun health_run :: "health \<Rightarrow> bool list \<Rightarrow> health" where
  "health_run s [] = s"
| "health_run s (answered # rest) = health_run (tick (ping_result answered s)) rest"

text \<open>The number of ticks that found their ping unanswered.\<close>

definition failed_checks :: "bool list \<Rightarrow> nat" where
  "failed_checks answers = length (filter Not answers)"

section \<open>The Proxy object (\<^verbatim>\<open>class Proxy\<close> in \<^verbatim>\<open>proxy.js\<close>)\<close>

text \<open>
  A property that holds an object, \<^verbatim>\<open>null\<close>, or nothing (\<^verbatim>\<open>undefined\<close>, also after
  \<^verbatim>\<open>delete\<close>). Only an object is truthy.
\<close>

datatype 'a js_ref = Undefined | Null | Object 'a

text \<open>
  Sockets and Cap'n Proto capabilities live outside the proxy; the model names each by a
  number. What the proxy does to them is recorded as a list of events: \<^verbatim>\<open>destroy()\<close>
  on a socket, \<^verbatim>\<open>close()\<close> on a capability.
\<close>

type_synonym handle = nat

datatype release = SocketDestroy handle | CapClose handle


record user_info =
  displayName :: string
  preferredHandle :: string
  userIdentityId :: "string option"
  pictureUrl :: "string option"
  pronouns :: "string option"

text \<open>
  The fields of a Proxy. \<open>websockets\<close> is the object mapping socket indices
  (\<^verbatim>\<open>websocketCounter.toString()\<close>) to open sockets, in the order \<^verbatim>\<open>for ... in\<close>
  visits them.
\<close>

record proxy =
  grainId :: string
  ownerId :: string
  identityId :: "string option"
  supervisor :: "handle js_ref"
  sessionId :: "string option"
  isApi :: bool
  hasLoaded :: bool
  websockets :: "(nat \<times> handle) list"
  websocketCounter :: nat
  hostId :: "string option"
  userInfo :: user_info
  uiView :: "handle js_ref"
  session :: "handle js_ref"
  apiToken :: "api_token option"

text \<open>
  \<^verbatim>\<open>if (this.f) { this.f.close(); delete this.f; }\<close> for one capability field: the value
  the field has afterwards and the events.
\<close>

fun close_field :: "handle js_ref \<Rightarrow> handle js_ref \<times> release list" where
  "close_field (Object h) = (Undefined, [CapClose h])"
| "close_field Null = (Null, [])"
| "close_field Undefined = (Undefined, [])"

text \<open>\<^verbatim>\<open>Proxy.close()\<close>: the proxy afterwards and the events, in order.\<close>

definition close :: "proxy \<Rightarrow> proxy \<times> release list" where
  "close p =
     (let destroyed = map (\<lambda>(socketIdx, socket). SocketDestroy socket) (websockets p);
          p1 = p\<lparr>websockets := []\<rparr>;
          p2 = p1\<lparr>session := fst (close_field (session p1))\<rparr>;
          p3 = p2\<lparr>uiView := fst (close_field (uiView p2))\<rparr>;
          p4 = p3\<lparr>supervisor := fst (close_field (supervisor p3))\<rparr>
      in (p4, destroyed @ snd (close_field (session p1)) @ snd (close_field (uiView p2))
                @ snd (close_field (supervisor p3))))"

text \<open>\<^verbatim>\<open>Proxy.resetConnection()\<close>: as \<^verbatim>\<open>close()\<close>, but the sockets stay.\<close>

definition resetConnection :: "proxy \<Rightarrow> proxy \<times> release list" where
  "resetConnection p =
     (let p2 = p\<lparr>session := fst (close_field (session p))\<rparr>;
          p3 = p2\<lparr>uiView := fst (close_field (uiView p2))\<rparr>;
          p4 = p3\<lparr>supervisor := fst (close_field (supervisor p3))\<rparr>
      in (p4, snd (close_field (session p)) @ snd (close_field (uiView p2))
                @ snd (close_field (supervisor p3))))"

text \<open>The handles a proxy holds: its open sockets and its three capabilities.\<close>

fun ref_handles :: "handle js_ref \<Rightarrow> handle list" where
  "ref_handles (Object h) = [h]"
| "ref_handles Null = []"
| "ref_handles Undefined = []"


text \<open>A sample proxy: an API proxy with two open sockets, a session and a supervisor.\<close>

definition anonymous_user :: user_info where
  "anonymous_user = \<lparr>displayName = ''Anonymous User'', preferredHandle = ''anonymous'',
     userIdentityId = None, pictureUrl = None, pronouns = None\<rparr>"

definition busy_proxy :: proxy where
  "busy_proxy = \<lparr>grainId = ''g1'', ownerId = ''u1'', identityId = None,
     supervisor = Object 10, sessionId = None, isApi = True, hasLoaded = True,
     websockets = [(0, 20), (1, 21)], websocketCounter = 2, hostId = None,
     userInfo = anonymous_user, uiView = Object 11, session = Object 12, apiToken = None\<rparr>"

definition idle_proxy :: proxy where
  "idle_proxy = \<lparr>grainId = ''g2'', ownerId = ''u2'', identityId = None,
     supervisor = Object 30, sessionId = None, isApi = True, hasLoaded = True,
     websockets = [], websocketCounter = 0, hostId = None,
     userInfo = anonymous_user, uiView = Object 31, session = Object 32, apiToken = None\<rparr>"

section \<open>The API proxy cache (\<^verbatim>\<open>class ApiSessionProxies\<close>)\<close>

text \<open>
  Proxies are shared objects: the cache stores references, and \<^verbatim>\<open>close()\<close> changes the
  object a reference points to. The store maps each reference to the proxy's state.
  A bucket is a two-level object keyed by the hashed token and the hashed parameters;
  the association lists keep the order in which \<^verbatim>\<open>for ... in\<close> visits the keys.
\<close>

type_synonym proxy_ref = nat
type_synonym proxy_store = "proxy_ref \<Rightarrow> proxy"
type_synonym bucket = "(string \<times> (string \<times> proxy_ref) list) list"

record api_session_proxies =
  newBucket :: bucket
  oldBucket :: bucket

text \<open>\<^verbatim>\<open>bucket[hashedToken] && bucket[hashedToken][hashedParams]\<close>\<close>

definition bucket_lookup :: "bucket \<Rightarrow> string \<Rightarrow> string \<Rightarrow> proxy_ref option" where
  "bucket_lookup b hashedToken hashedParams =
     (case map_of b hashedToken of None \<Rightarrow> None | Some inner \<Rightarrow> map_of inner hashedParams)"

definition put :: "api_session_proxies \<Rightarrow> string \<Rightarrow> string \<Rightarrow> proxy_ref \<Rightarrow> api_session_proxies" where
  "put c hashedToken hashedParams r =
     (let inner = (case map_of (newBucket c) hashedToken of None \<Rightarrow> [] | Some i \<Rightarrow> i)
      in c\<lparr>newBucket := AList.update hashedToken (AList.update hashedParams r inner) (newBucket c)\<rparr>)"

definition get :: "api_session_proxies \<Rightarrow> string \<Rightarrow> string \<Rightarrow> proxy_ref option \<times> api_session_proxies" where
  "get c hashedToken hashedParams =
     (case bucket_lookup (newBucket c) hashedToken hashedParams of
        Some r \<Rightarrow> (Some r, c)
      | None \<Rightarrow>
          (case bucket_lookup (oldBucket c) hashedToken hashedParams of
             Some r \<Rightarrow>
               (let inner = (case map_of (oldBucket c) hashedToken of None \<Rightarrow> [] | Some i \<Rightarrow> i);
                    c1 = c\<lparr>oldBucket :=
                           AList.update hashedToken (AList.delete hashedParams inner) (oldBucket c)\<rparr>
                in (Some r, put c1 hashedToken hashedParams r))
           | None \<Rightarrow> (None, c)))"

text \<open>
  The state of a sweep: the cache, the proxy store, and the references on which
  \<^verbatim>\<open>close()\<close> has been called, in order.
\<close>

type_synonym sweep_state = "api_session_proxies \<times> proxy_store \<times> proxy_ref list"

text \<open>The body of the inner loop of the interval callback, for one pair of keys.\<close>

definition sweep_entry :: "string \<Rightarrow> string \<Rightarrow> sweep_state \<Rightarrow> sweep_state" where
  "sweep_entry oldHashedToken oldHashedParams st =
     (case st of (c, store, closed) \<Rightarrow>
        (case bucket_lookup (oldBucket c) oldHashedToken oldHashedParams of
           None \<Rightarrow> st
         | Some oldProxy \<Rightarrow>
             (case bucket_lookup (newBucket c) oldHashedToken oldHashedParams of
                Some newProxy \<Rightarrow> st
              | None \<Rightarrow>
                  if length (websockets (store oldProxy)) > 0
                  then (put c oldHashedToken oldHashedParams oldProxy, store, closed)
                  else (c, store(oldProxy := fst (close (store oldProxy))), closed @ [oldProxy]))))"

text \<open>The two nested \<^verbatim>\<open>for ... in\<close> loops over the old bucket.\<close>

definition sweep_loops :: "sweep_state \<Rightarrow> sweep_state" where
  "sweep_loops st =
     fold (\<lambda>(oldHashedToken, inner).
             fold (\<lambda>(oldHashedParams, _). sweep_entry oldHashedToken oldHashedParams) inner)
          (oldBucket (fst st)) st"

text \<open>
  The whole interval callback: the loops, then \<^verbatim>\<open>this.oldBucket = this.newBucket;
  this.newBucket = {}\<close>.
\<close>

definition sweep :: "api_session_proxies \<Rightarrow> proxy_store \<Rightarrow> sweep_state" where
  "sweep c store =
     (case sweep_loops (c, store, []) of
        (c', store', closed) \<Rightarrow> (\<lparr>newBucket = [], oldBucket = newBucket c'\<rparr>, store', closed))"

text \<open>What the cache holds under a pair of keys, in either bucket.\<close>

definition cached :: "api_session_proxies \<Rightarrow> string \<Rightarrow> string \<Rightarrow> proxy_ref option" where
  "cached c hashedToken hashedParams =
     (case bucket_lookup (newBucket c) hashedToken hashedParams of
        Some r \<Rightarrow> Some r
      | None \<Rightarrow> bucket_lookup (oldBucket c) hashedToken hashedParams)"

text \<open>
  A sample cache: the old bucket holds a proxy with open sockets and an idle one, the
  new bucket a third proxy under another token.
\<close>

definition sample_cache :: api_session_proxies where
  "sample_cache = \<lparr>newBucket = [(''t2'', [(''p9'', 3)])],
                    oldBucket = [(''t1'', [(''p1'', 1), (''p2'', 2)])]\<rparr>"

definition sample_store :: proxy_store where
  "sample_store = (\<lambda>r. idle_proxy)(1 := busy_proxy)"

text \<open>
  A cache in which the old and the new bucket hold different proxies under the same pair
  of keys, as after two concurrent misses of \<^verbatim>\<open>getProxyForApiToken\<close> whose
  \<^verbatim>\<open>put\<close> calls fall on either side of a sweep.
\<close>

definition shadowed_cache :: api_session_proxies where
  "shadowed_cache = \<lparr>newBucket = [(''t1'', [(''p1'', 2)])],
                      oldBucket = [(''t1'', [(''p1'', 1)])]\<rparr>"

text \<open>
  Two predicates for reasoning about a sweep that started from cache \<open>c0\<close> and store
  \<open>h0\<close>. \<open>sweep_inv\<close> holds of every state the loops pass through: the old bucket
  is not touched, the new bucket only gains old entries with open sockets under keys it
  did not have, and the store only changes at the closed references, all of which had
  no open socket. \<open>sweep_done\<close> says that the pair of keys has been dealt with.
\<close>

definition sweep_inv :: "api_session_proxies \<Rightarrow> proxy_store \<Rightarrow> sweep_state \<Rightarrow> bool" where
  "sweep_inv c0 h0 st =
     (case st of (c, h, closed) \<Rightarrow>
        oldBucket c = oldBucket c0
      \<and> (\<forall>t p. bucket_lookup (newBucket c) t p = bucket_lookup (newBucket c0) t p
              \<or> (bucket_lookup (newBucket c0) t p = None
                  \<and> (\<exists>r. bucket_lookup (oldBucket c0) t p = Some r \<and> websockets (h0 r) \<noteq> []
                         \<and> bucket_lookup (newBucket c) t p = Some r)))
      \<and> (\<forall>r. if r \<in> set closed
               then websockets (h0 r) = [] \<and> h r = fst (close (h0 r))
               else h r = h0 r))"

definition sweep_done ::
  "api_session_proxies \<Rightarrow> proxy_store \<Rightarrow> string \<Rightarrow> string \<Rightarrow> sweep_state \<Rightarrow> bool" where
  "sweep_done c0 h0 t p st =
     (case st of (c, h, closed) \<Rightarrow>
        (case bucket_lookup (oldBucket c0) t p of
           None \<Rightarrow> True
         | Some r \<Rightarrow>
             bucket_lookup (newBucket c0) t p = None \<longrightarrow>
               (if websockets (h0 r) \<noteq> [] then bucket_lookup (newBucket c) t p = Some r
                else r \<in> set closed)))"

section \<open>Session proxies by host id (\<^verbatim>\<open>getProxyForHostId\<close>)\<close>

text \<open>A string is truthy when it is present and not empty.\<close>

definition js_truthy :: "string option \<Rightarrow> bool" where
  "js_truthy s = (case s of None \<Rightarrow> False | Some v \<Rightarrow> v \<noteq> [])"

text \<open>The documents the lookup reads: identities, sessions and grains.\<close>

record identity_doc =
  identity_id :: string
  profile_name :: string
  profile_handle :: string
  profile_pictureUrl :: "string option"
  profile_pronoun :: "string option"

record session_doc =
  session_id :: string
  session_hostId :: string
  session_grainId :: string
  session_identityId :: "string option"
  session_hashedToken :: "string option"

record grain_doc =
  grain_id :: string
  grain_userId :: string

text \<open>
  The constructor of \<^verbatim>\<open>Proxy\<close>, with \<^verbatim>\<open>globalDb.getIdentity\<close> as the map
  \<open>identities\<close>. Each \<^verbatim>\<open>throw\<close> is a result \<open>Inl\<close>.
\<close>

definition new_Proxy ::
  "(string \<rightharpoonup> identity_doc) \<Rightarrow> string \<Rightarrow> string \<Rightarrow> string option \<Rightarrow> string option
     \<Rightarrow> string option \<Rightarrow> bool \<Rightarrow> handle js_ref \<Rightarrow> js_error + proxy" where
  "new_Proxy identities grainId' ownerId' sessionId' hostId' identityId' isApi' supervisor' =
     (let this = \<lparr>grainId = grainId', ownerId = ownerId', identityId = identityId',
                   supervisor = supervisor', sessionId = sessionId', isApi = isApi',
                   hasLoaded = False, websockets = [], websocketCounter = 0, hostId = None,
                   userInfo = anonymous_user, uiView = Undefined, session = Undefined,
                   apiToken = None\<rparr>
      in case
           (if js_truthy sessionId' then
              (if \<not> js_truthy hostId' then Inl (PlainError ''sessionId must come with hostId'')
               else if isApi' then Inl (PlainError ''API proxy shouldn't have sessionId'')
               else Inr (this\<lparr>hostId := hostId'\<rparr>))
            else
              (if \<not> isApi' then Inl (PlainError ''non-API proxy requires sessionId'')
               else if js_truthy hostId' then Inl (PlainError ''API proxy sholudn't have hostId'')
               else Inr this))
         of
           Inl e \<Rightarrow> Inl e
         | Inr this1 \<Rightarrow>
             (if js_truthy identityId' then
                (case identities (the identityId') of
                   None \<Rightarrow> Inl (PlainError (''identity not found: '' @ the identityId'))
                 | Some identity \<Rightarrow>
                     Inr (this1\<lparr>userInfo :=
                            \<lparr>displayName = profile_name identity,
                             preferredHandle = profile_handle identity,
                             userIdentityId = Some (identity_id identity),
                             pictureUrl =
                               (if js_truthy (profile_pictureUrl identity)
                                then profile_pictureUrl identity else None),
                             pronouns =
                               (if js_truthy (profile_pronoun identity)
                                then profile_pronoun identity else None)\<rparr>\<rparr>))
              else Inr this1))"

text \<open>
  \<^verbatim>\<open>proxiesByHostId\<close>: a host id is a key of the table or not, and the value under a key
  is a proxy or the placeholder \<^verbatim>\<open>null\<close> (\<open>Some None\<close>).
\<close>

type_synonym proxy_table = "string \<rightharpoonup> proxy option"

text \<open>
  The first, synchronous part of \<^verbatim>\<open>getProxyForHostId\<close>: an existing proxy is returned;
  otherwise the placeholder is stored and the lookup is started (\<open>None\<close>).
\<close>

definition getProxyForHostId_start :: "proxy_table \<Rightarrow> string \<Rightarrow> proxy option \<times> proxy_table" where
  "getProxyForHostId_start table hostId' =
     (case table hostId' of
        Some (Some proxy) \<Rightarrow> (Some proxy, table)
      | _ \<Rightarrow> (None, table(hostId' \<mapsto> None)))"

text \<open>
  How the promise of the lookup settles. With no session document and
  \<^verbatim>\<open>isAlreadyOpened\<close>, it waits for the client to restore the session (or for the
  60-second timeout); that wait is the value \<open>AwaitingSession\<close>.
\<close>

datatype lookup_result =
    Resolved proxy | ResolvedUndefined | AwaitingSession | Rejected js_error

text \<open>
  The second part, the callback passed to \<^verbatim>\<open>inMeteor\<close>. It runs later than the first
  part; \<open>table\<close> is the table as it stands when the callback reaches the test
  \<^verbatim>\<open>hostId in proxiesByHostId\<close> (nothing before that test reads or writes the table).
\<close>

definition getProxyForHostId_lookup ::
  "session_doc list \<Rightarrow> api_tokens \<Rightarrow> (string \<rightharpoonup> grain_doc) \<Rightarrow> (string \<rightharpoonup> identity_doc)
     \<Rightarrow> proxy_table \<Rightarrow> string \<Rightarrow> bool \<Rightarrow> lookup_result \<times> proxy_table" where
  "getProxyForHostId_lookup sessions tokens grains identities table hostId' isAlreadyOpened =
     (case find (\<lambda>s. session_hostId s = hostId') sessions of
        None \<Rightarrow> (if isAlreadyOpened then AwaitingSession else ResolvedUndefined, table)
      | Some session' \<Rightarrow>
          (case
             (if js_truthy (session_hashedToken session') then
                (case tokens (the (session_hashedToken session')) of
                   None \<Rightarrow> Inl (MeteorError 410 ''ApiToken has been deleted'')
                 | Some tok \<Rightarrow> Inr (Some tok))
              else Inr None)
           of
             Inl e \<Rightarrow> (Rejected e, table)
           | Inr apiToken' \<Rightarrow>
               (case grains (session_grainId session') of
                  None \<Rightarrow> (Rejected (MeteorError 410 ''Resource has been deleted''), table)
                | Some grain \<Rightarrow>
                    (case new_Proxy identities (grain_id grain) (grain_userId grain)
                            (Some (session_id session')) (Some hostId')
                            (session_identityId session') False Undefined of
                       Inl e \<Rightarrow> (Rejected e, table)
                     | Inr proxy0 \<Rightarrow>
                         (let proxy = (case apiToken' of
                                         Some tok \<Rightarrow> proxy0\<lparr>apiToken := Some tok\<rparr>
                                       | None \<Rightarrow> proxy0)
                          in if hostId' \<in> dom table
                             then (Resolved proxy, table(hostId' \<mapsto> Some proxy))
                             else (Rejected (MeteorError 403 ''Session was concurrently closed.''),
                                   table))))))"

text \<open>
  What runs when a session document is removed (the \<^verbatim>\<open>removed\<close> observer):
  \<^verbatim>\<open>delete proxiesByHostId[session.hostId]\<close>, and \<^verbatim>\<open>close()\<close> on the proxy if there was
  one. The revocation path \<^verbatim>\<open>clearSessionsAndProxies\<close> does the same to the table.
\<close>

definition session_removed :: "proxy_table \<Rightarrow> string \<Rightarrow> proxy_table \<times> release list" where
  "session_removed table hostId' =
     (case table hostId' of
        Some (Some proxy) \<Rightarrow> (table(hostId' := None), snd (close proxy))
      | _ \<Rightarrow> (table(hostId' := None), []))"

text \<open>Sample documents: one session of one grain, opened anonymously.\<close>

definition sample_session :: session_doc where
  "sample_session = \<lparr>session_id = ''s1'', session_hostId = ''host1'', session_grainId = ''g1'',
     session_identityId = None, session_hashedToken = None\<rparr>"

definition sample_grain :: grain_doc where
  "sample_grain = \<lparr>grain_id = ''g1'', grain_userId = ''u1''\<rparr>"

section \<open>Request handling (\<^verbatim>\<open>Proxy.handleRequest\<close>, \<^verbatim>\<open>handleRequestStreaming\<close> and their caller)\<close>

subsection \<open>Requests, responses and the backend\<close>

text \<open>
  A request body is a run of bytes that is not a gzip stream, or the gzip compression
  of a body. \<^verbatim>\<open>gunzipSync\<close> undoes one compression and throws zlib's error on
  anything else.
\<close>

datatype body = Bytes string | Gzip body

fun gunzipSync :: "body \<Rightarrow> js_error + body" where
  "gunzipSync (Gzip b) = Inr b"
| "gunzipSync (Bytes s) = Inl (PlainError ''incorrect header check'')"

text \<open>
  What the handlers read from a request. The header parsers are represented by what
  they do on this request's headers, which no handler changes:
  \<^item> \<open>req_cookies\<close>: \<^verbatim>\<open>parseCookies\<close> throws on a second non-empty
    \<^verbatim>\<open>sandstorm-sid\<close> cookie, or returns the session id it found, if any;
  \<^item> \<open>req_precondition\<close>: \<^verbatim>\<open>parsePreconditionHeader\<close> throws when
    \<^verbatim>\<open>parseETagList\<close> meets an ill-formed entity tag, or returns;
  \<^item> \<open>req_content_type_xml\<close>: whether the \<^verbatim>\<open>content-type\<close> header (or the default
    XML type, when there is none) matches the pattern of \<^verbatim>\<open>xmlContent\<close>;
  \<^item> \<open>req_destination\<close>: the \<^verbatim>\<open>destination\<close> header and the \<^verbatim>\<open>path\<close> that
    \<^verbatim>\<open>Url.parse\<close> finds in it, which may be \<^verbatim>\<open>null\<close>.
  \<open>req_body\<close> is what \<^verbatim>\<open>readAll(request)\<close> resolves to.
\<close>

datatype cookie_parse = MultipleSessionIds | Cookies "string option"

datatype precondition_parse = InvalidETag | Precondition

datatype destination_header = NoDestination | Destination "string option"

record http_request =
  req_method :: string
  req_pathname :: string
  req_query_sessionid :: "string option"
  req_content_length :: "nat option"
  req_cookies :: cookie_parse
  req_precondition :: precondition_parse
  req_content_type_xml :: bool
  req_content_encoding :: "string option"
  req_destination :: destination_header
  req_body :: body

text \<open>
  Node's response object: whether the header has been sent, the status code, the reason
  phrase and whether the response has ended. Until \<^verbatim>\<open>writeHead\<close> gives a reason
  phrase there is none; when the header is then sent implicitly, Node uses the standard
  phrase of the status code (\<^verbatim>\<open>OK\<close> for 200).
\<close>

datatype reason_phrase = NoReason | StandardReason | Reason string

record http_response =
  headersSent :: bool
  statusCode :: nat
  statusMessage :: reason_phrase
  ended :: bool

definition fresh_response :: http_response where
  "fresh_response = \<lparr>headersSent = False, statusCode = 200, statusMessage = NoReason, ended = False\<rparr>"

definition writeHead :: "nat \<Rightarrow> string \<Rightarrow> http_response \<Rightarrow> http_response" where
  "writeHead code reason resp =
     resp\<lparr>headersSent := True, statusCode := code, statusMessage := Reason reason\<rparr>"

definition end_response :: "http_response \<Rightarrow> http_response" where
  "end_response resp =
     (if headersSent resp then resp\<lparr>ended := True\<rparr>
      else resp\<lparr>headersSent := True,
                statusMessage := (case statusMessage resp of NoReason \<Rightarrow> StandardReason | r \<Rightarrow> r),
                ended := True\<rparr>)"

text \<open>
  The RPC calls a proxy makes are recorded in order. \<open>SessionCall m\<close> is the call of
  method \<open>m\<close> of the \<^verbatim>\<open>WebSession\<close> capability, the call that carries the request.
\<close>

datatype rpc_call = GetGrain | GetMainView | GetViewInfo | SessionCall string | ContinueGrain

record rpc_world =
  next_handle :: handle
  calls :: "rpc_call list"
  released :: "release list"

text \<open>How often a request was sent to the application, and how often the grain was
  continued.\<close>

definition session_calls :: "rpc_world \<Rightarrow> nat" where
  "session_calls w = length (filter (\<lambda>c. case c of SessionCall m \<Rightarrow> True | _ \<Rightarrow> False) (calls w))"

definition reconnections :: "rpc_world \<Rightarrow> nat" where
  "reconnections w = length (filter (\<lambda>c. c = ContinueGrain) (calls w))"

text \<open>
  What the application answers to a session call. \<^verbatim>\<open>translateResponse\<close> is not
  unfolded: a response stands for what \<^verbatim>\<open>translateResponse\<close> does with it, which is
  to write a status line and end the response, to throw an \<^verbatim>\<open>Error\<close> before writing
  anything, or (for a streamed body whose stream closes early) to write the status line
  and then reject with an \<^verbatim>\<open>Error\<close>.
\<close>

datatype rpc_response =
    Translated nat string
  | Untranslatable string
  | StreamBroken nat string

datatype rpc_outcome = RpcThrows js_error | RpcReturns rpc_response

text \<open>
  What happens to \<^verbatim>\<open>postStreaming\<close> or \<^verbatim>\<open>putStreaming\<close>: the call is rejected, or a
  request stream is opened. In the second case the upload and \<^verbatim>\<open>getResponse()\<close> run
  side by side, and the promise ends in one of two ways: with an error (the one
  \<^verbatim>\<open>getResponse()\<close> rejects with, also when a failed upload cancelled it, or the upload
  error found when the response arrives), or with a response to translate.
\<close>

datatype stream_outcome = StreamRefused js_error | StreamOpened "js_error + rpc_response"

text \<open>
  The backend as the proxy sees it, as a script: the outcome of the session call that
  is made when \<open>n\<close> session calls have been made before it (\<open>rpc_reply\<close> for an
  ordinary call, \<open>stream_reply\<close> for a streaming one), and the error (if any) of the
  call of \<^verbatim>\<open>globalBackend.continueGrain\<close> that is made when the grain has been
  continued \<open>n\<close> times before.
\<close>

record backend =
  rpc_reply :: "nat \<Rightarrow> rpc_outcome"
  stream_reply :: "nat \<Rightarrow> stream_outcome"
  continue_reply :: "nat \<Rightarrow> js_error option"

definition kjType :: "js_error \<Rightarrow> string option" where
  "kjType e = (case e of KjError k m \<Rightarrow> Some k | _ \<Rightarrow> None)"

subsection \<open>Connecting\<close>

definition is_object :: "'a js_ref \<Rightarrow> bool" where
  "is_object r = (case r of Object x \<Rightarrow> True | _ \<Rightarrow> False)"

definition getConnection :: "proxy \<Rightarrow> rpc_world \<Rightarrow> proxy \<times> rpc_world" where
  "getConnection p w =
     (let (p1, w1) =
            (if \<not> is_object (supervisor p)
             then (p\<lparr>supervisor := Object (next_handle w), uiView := Null\<rparr>,
                   w\<lparr>next_handle := next_handle w + 1, calls := calls w @ [GetGrain]\<rparr>)
             else (p, w))
      in if \<not> is_object (uiView p1)
         then (p1\<lparr>uiView := Object (next_handle w1)\<rparr>,
               w1\<lparr>next_handle := next_handle w1 + 1, calls := calls w1 @ [GetMainView]\<rparr>)
         else (p1, w1))"

text \<open>
  \<^verbatim>\<open>getSession\<close> returns at once with a capability for the session being negotiated; a
  failure of the negotiation shows as the failure of the call made on it.
\<close>

definition getSession :: "proxy \<Rightarrow> rpc_world \<Rightarrow> proxy \<times> rpc_world" where
  "getSession p w =
     (if \<not> is_object (session p)
      then (let (p1, w1) = getConnection p w
            in (p1\<lparr>session := Object (next_handle w1)\<rparr>,
                w1\<lparr>next_handle := next_handle w1 + 1, calls := calls w1 @ [GetViewInfo]\<rparr>))
      else (p, w))"

definition setHasLoaded :: "proxy \<Rightarrow> proxy" where
  "setHasLoaded p = (if \<not> hasLoaded p then p\<lparr>hasLoaded := True\<rparr> else p)"

subsection \<open>One attempt\<close>

text \<open>
  \<^verbatim>\<open>makeContext\<close>: the error it throws, if any. A session proxy parses the cookies and
  compares the session id; every proxy parses the precondition headers.
\<close>

definition makeContext :: "proxy \<Rightarrow> http_request \<Rightarrow> js_error option" where
  "makeContext p req =
     (case
        (if js_truthy (hostId p)
         then (case req_cookies req of
                 MultipleSessionIds \<Rightarrow> Some (PlainError ''Multiple sandstorm session IDs?'')
               | Cookies sid \<Rightarrow>
                   if \<not> js_truthy sid \<or> sid \<noteq> sessionId p
                   then Some (MeteorError 403 ''Unauthorized'') else None)
         else None)
      of
        Some e \<Rightarrow> Some e
      | None \<Rightarrow>
          (case req_precondition req of
             InvalidETag \<Rightarrow> Some (MeteorError 400 ''invalid etag'')
           | Precondition \<Rightarrow> None))"

definition unsupported_method :: js_error where
  "unsupported_method = PlainError
     ''Sandstorm only supports the following methods: GET, POST, PUT, PATCH, DELETE, HEAD, PROPFIND, PROPPATCH, MKCOL, COPY, MOVE, LOCK, UNLOCK, ACL, REPORT, and OPTIONS.''"

text \<open>
  \<^verbatim>\<open>xmlContent()\<close>: the error thrown, if any, the variable \<^verbatim>\<open>data\<close> of
  \<^verbatim>\<open>handleRequest\<close> afterwards, and the response. For a gzip body it assigns the
  decompressed bytes to \<^verbatim>\<open>data\<close>.
\<close>

definition xmlContent ::
  "http_request \<Rightarrow> body \<Rightarrow> http_response \<Rightarrow> js_error option \<times> body \<times> http_response" where
  "xmlContent req data resp =
     (if \<not> req_content_type_xml req
      then (Some (PlainError ''expected XML request body''), data,
            end_response (writeHead 415 ''Unsupported media type.'' resp))
      else if js_truthy (req_content_encoding req) \<and> req_content_encoding req \<noteq> Some ''identity''
      then (if req_content_encoding req \<noteq> Some ''gzip''
            then (Some (PlainError (''unknown Content-Encoding: '' @ the (req_content_encoding req))),
                  data, resp)
            else (case gunzipSync data of
                    Inl e \<Rightarrow> (Some e, data, resp)
                  | Inr unzipped \<Rightarrow> (None, unzipped, resp)))
      else (None, data, resp))"

text \<open>\<^verbatim>\<open>destination()\<close>: the error thrown, if any.\<close>

definition destination :: "http_request \<Rightarrow> js_error option" where
  "destination req =
     (case req_destination req of
        NoDestination \<Rightarrow> Some (PlainError ''missing destination'')
      | Destination None \<Rightarrow> Some (PlainError ''Cannot read property 'slice' of null'')
      | Destination (Some path) \<Rightarrow> None)"

text \<open>
  The chain of tests on \<^verbatim>\<open>request.method\<close>, in source order: the session method each
  branch calls and the helper it evaluates for the arguments, and \<open>None\<close> for the final
  \<^verbatim>\<open>else\<close>.
\<close>

datatype call_args = Plain | WithXml | WithDestination

definition call_for_method :: "string \<Rightarrow> (string \<times> call_args) option" where
  "call_for_method m =
     (if m = ''GET'' \<or> m = ''HEAD'' then Some (''get'', Plain)
      else if m = ''POST'' then Some (''post'', Plain)
      else if m = ''PUT'' then Some (''put'', Plain)
      else if m = ''PATCH'' then Some (''patch'', Plain)
      else if m = ''DELETE'' then Some (''delete'', Plain)
      else if m = ''PROPFIND'' then Some (''propfind'', WithXml)
      else if m = ''PROPPATCH'' then Some (''proppatch'', WithXml)
      else if m = ''MKCOL'' then Some (''mkcol'', Plain)
      else if m = ''COPY'' then Some (''copy'', WithDestination)
      else if m = ''MOVE'' then Some (''move'', WithDestination)
      else if m = ''LOCK'' then Some (''lock'', WithXml)
      else if m = ''UNLOCK'' then Some (''unlock'', Plain)
      else if m = ''ACL'' then Some (''acl'', WithXml)
      else if m = ''REPORT'' then Some (''report'', Plain)
      else if m = ''OPTIONS'' then Some (''options'', Plain)
      else None)"

text \<open>
  The method dispatch up to the session call: the name of the session method to call,
  or the error thrown while its arguments are evaluated or by the final \<^verbatim>\<open>else\<close>;
  the variable \<^verbatim>\<open>data\<close> and the response afterwards.
\<close>

definition select_call ::
  "http_request \<Rightarrow> body \<Rightarrow> http_response \<Rightarrow> (js_error + string) \<times> body \<times> http_response" where
  "select_call req data resp =
     (case call_for_method (req_method req) of
        None \<Rightarrow> (Inl unsupported_method, data, resp)
      | Some (name, Plain) \<Rightarrow> (Inr name, data, resp)
      | Some (name, WithXml) \<Rightarrow>
          (case xmlContent req data resp of
             (Some e, data', resp') \<Rightarrow> (Inl e, data', resp')
           | (None, data', resp') \<Rightarrow> (Inr name, data', resp'))
      | Some (name, WithDestination) \<Rightarrow>
          (case destination req of
             Some e \<Rightarrow> (Inl e, data, resp)
           | None \<Rightarrow> (Inr name, data, resp)))"

definition translateResponse ::
  "proxy \<Rightarrow> rpc_response \<Rightarrow> http_response \<Rightarrow> js_error option \<times> proxy \<times> http_response" where
  "translateResponse p r resp =
     (case r of
        Translated code title \<Rightarrow> (None, setHasLoaded p, end_response (writeHead code title resp))
      | Untranslatable msg \<Rightarrow> (Some (PlainError msg), setHasLoaded p, resp)
      | StreamBroken code title \<Rightarrow>
          (Some (PlainError ''done() was never called on outbound stream.''), setHasLoaded p,
           writeHead code title resp))"

text \<open>
  The promise chain of \<^verbatim>\<open>handleRequest\<close> before its \<^verbatim>\<open>.catch\<close>: the error it rejects
  with (\<open>None\<close> when it resolves), and the proxy, the variable \<^verbatim>\<open>data\<close>, the response
  and the world afterwards.
\<close>

definition attempt ::
  "backend \<Rightarrow> proxy \<Rightarrow> http_request \<Rightarrow> body \<Rightarrow> http_response \<Rightarrow> rpc_world
     \<Rightarrow> js_error option \<times> proxy \<times> body \<times> http_response \<times> rpc_world" where
  "attempt be p req data resp w =
     (case makeContext p req of
        Some e \<Rightarrow> (Some e, p, data, resp, w)
      | None \<Rightarrow>
          (let (p1, w1) = getSession p w
           in case select_call req data resp of
                (Inl e, data1, resp1) \<Rightarrow> (Some e, p1, data1, resp1, w1)
              | (Inr name, data1, resp1) \<Rightarrow>
                  (let w2 = w1\<lparr>calls := calls w1 @ [SessionCall name]\<rparr>
                   in case rpc_reply be (session_calls w1) of
                        RpcThrows err \<Rightarrow>
                          (if name = ''options'' \<and> kjType err = Some ''unimplemented''
                           then (None, p1, data1, end_response resp1, w2)
                           else (Some err, p1, data1, resp1, w2))
                      | RpcReturns r \<Rightarrow>
                          (if name = ''options'' then (None, p1, data1, end_response resp1, w2)
                           else (case translateResponse p1 r resp1 of
                                   (res, p2, resp2) \<Rightarrow> (res, p2, data1, resp2, w2))))))"

subsection \<open>Retrying\<close>

text \<open>
  Modelled from the spec: \<^verbatim>\<open>SandstormBackend.shouldRestartGrain(error, retryCount)\<close>,
  which lives in the backend package and is not among the sources at hand. The
  specification describes it as a fixed predicate over the error kind with an upper
  retry bound of one retry per request, the retriable kind being an RPC disconnect
  (grain process restart); \<^verbatim>\<open>proxy.js\<close> itself tests that kind as
  \<^verbatim>\<open>err.kjType === "disconnected"\<close>.
\<close>

definition shouldRestartGrain :: "js_error \<Rightarrow> nat \<Rightarrow> bool" where
  "shouldRestartGrain error retryCount = (kjType error = Some ''disconnected'' \<and> retryCount < 1)"

text \<open>
  \<^verbatim>\<open>maybeRetryAfterError\<close>: the error thrown, or with which the returned promise
  rejects, and \<open>None\<close> when the grain has been continued.
\<close>

definition maybeRetryAfterError ::
  "backend \<Rightarrow> proxy \<Rightarrow> js_error \<Rightarrow> nat \<Rightarrow> rpc_world \<Rightarrow> js_error option \<times> proxy \<times> rpc_world" where
  "maybeRetryAfterError be p error retryCount w =
     (if shouldRestartGrain error retryCount
      then (let (p1, rel) = resetConnection p;
                w1 = w\<lparr>released := released w @ rel, calls := calls w @ [ContinueGrain]\<rparr>
            in case continue_reply be (reconnections w) of
                 Some e \<Rightarrow> (Some e, p1, w1)
               | None \<Rightarrow> (None, p1\<lparr>supervisor := Object (next_handle w1)\<rparr>,
                           w1\<lparr>next_handle := next_handle w1 + 1\<rparr>))
      else (Some error, p, w))"

text \<open>
  \<^verbatim>\<open>handleRequest(request, data, response, retryCount)\<close>. The replay is called with
  the variable \<^verbatim>\<open>data\<close> as the attempt left it.
\<close>

function handleRequest ::
  "backend \<Rightarrow> proxy \<Rightarrow> http_request \<Rightarrow> body \<Rightarrow> http_response \<Rightarrow> nat \<Rightarrow> rpc_world
     \<Rightarrow> js_error option \<times> proxy \<times> http_response \<times> rpc_world" where
  "handleRequest be p req data resp retryCount w =
     (case attempt be p req data resp w of
        (None, p1, data1, resp1, w1) \<Rightarrow> (None, p1, resp1, w1)
      | (Some error, p1, data1, resp1, w1) \<Rightarrow>
          (case maybeRetryAfterError be p1 error retryCount w1 of
             (Some e, p2, w2) \<Rightarrow> (Some e, p2, resp1, w2)
           | (None, p2, w2) \<Rightarrow> handleRequest be p2 req data1 resp1 (retryCount + 1) w2))"
  by pat_completeness auto
termination
  by (relation "measure (\<lambda>(be, p, req, data, resp, retryCount, w). 1 - retryCount)")
     (auto simp: maybeRetryAfterError_def shouldRestartGrain_def split: if_splits)

declare handleRequest.simps [simp del]

subsection \<open>Streaming\<close>

text \<open>The test on \<^verbatim>\<open>request.method\<close> in \<^verbatim>\<open>handleRequestStreaming\<close>.\<close>

definition streaming_call :: "http_request \<Rightarrow> string option" where
  "streaming_call req =
     (if req_method req = ''POST'' then Some ''postStreaming''
      else if req_method req = ''PUT'' then Some ''putStreaming''
      else None)"

text \<open>\<^verbatim>\<open>message.indexOf(part) !== -1\<close>\<close>

fun contains_string :: "string \<Rightarrow> string \<Rightarrow> bool" where
  "contains_string [] part = (part = [])"
| "contains_string (c # cs) part = (take (length part) (c # cs) = part \<or> contains_string cs part)"

text \<open>
  The first step of the rejection handler: an error of type \<^verbatim>\<open>failed\<close> whose message
  contains "not implemented" is given the type \<^verbatim>\<open>unimplemented\<close>.
\<close>

definition old_unimplemented :: "js_error \<Rightarrow> js_error" where
  "old_unimplemented err =
     (case err of
        KjError k m \<Rightarrow>
          if k = ''failed'' \<and> contains_string m ''not implemented''
          then KjError ''unimplemented'' m else err
      | _ \<Rightarrow> err)"

text \<open>
  \<^verbatim>\<open>handleRequestStreaming(request, response, contentLength, retryCount)\<close>. A
  rejected streaming call is retried through \<^verbatim>\<open>maybeRetryAfterError\<close> with
  \<^verbatim>\<open>retryCount\<close>; when the application does not implement streaming, the body is read
  and \<^verbatim>\<open>handleRequest\<close> is called with retry count 0. An error after the stream was
  opened is not handled here.
\<close>

function handleRequestStreaming ::
  "backend \<Rightarrow> proxy \<Rightarrow> http_request \<Rightarrow> http_response \<Rightarrow> nat \<Rightarrow> rpc_world
     \<Rightarrow> js_error option \<times> proxy \<times> http_response \<times> rpc_world" where
  "handleRequestStreaming be p req resp retryCount w =
     (case makeContext p req of
        Some e \<Rightarrow> (Some e, p, resp, w)
      | None \<Rightarrow>
          (let (p1, w1) = getSession p w
           in case streaming_call req of
                None \<Rightarrow>
                  (Some (PlainError ''Sandstorm only supports streaming POST and PUT requests.''),
                   p1, resp, w1)
              | Some name \<Rightarrow>
                  (let w2 = w1\<lparr>calls := calls w1 @ [SessionCall name]\<rparr>
                   in case stream_reply be (session_calls w1) of
                        StreamOpened (Inl e) \<Rightarrow> (Some e, p1, resp, w2)
                      | StreamOpened (Inr r) \<Rightarrow>
                          (case translateResponse p1 r resp of
                             (res, p2, resp2) \<Rightarrow> (res, p2, resp2, w2))
                      | StreamRefused err0 \<Rightarrow>
                          (let err = old_unimplemented err0
                           in if shouldRestartGrain err 0
                              then (case maybeRetryAfterError be p1 err retryCount w2 of
                                      (Some e, p2, w3) \<Rightarrow> (Some e, p2, resp, w3)
                                    | (None, p2, w3) \<Rightarrow>
                                        handleRequestStreaming be p2 req resp (retryCount + 1) w3)
                              else if kjType err = Some ''unimplemented''
                              then handleRequest be p1 req (req_body req) resp 0 w2
                              else (Some err, p1, resp, w2)))))"
  by pat_completeness auto
termination
  by (relation "measure (\<lambda>(be, p, req, resp, retryCount, w). 1 - retryCount)")
     (auto simp: maybeRetryAfterError_def shouldRestartGrain_def split: if_splits)

declare handleRequestStreaming.simps [simp del]

text \<open>The outcomes of a streaming call after which \<^verbatim>\<open>handleRequestStreaming\<close> falls
  back to \<^verbatim>\<open>handleRequest\<close>: the call is refused as unimplemented.\<close>

definition streaming_unimplemented :: "stream_outcome \<Rightarrow> bool" where
  "streaming_unimplemented r =
     (case r of
        StreamRefused err \<Rightarrow> kjType (old_unimplemented err) = Some ''unimplemented''
      | StreamOpened x \<Rightarrow> False)"

subsection \<open>The handler of a proxy\<close>

text \<open>
  \<^verbatim>\<open>requestHandler\<close> first chooses among the session-cookie handshake, streaming mode
  and the buffered call of \<^verbatim>\<open>handleRequest\<close>.
\<close>

datatype route = SessionInit | Streaming | Buffered

definition requestHandler_route :: "proxy \<Rightarrow> http_request \<Rightarrow> route" where
  "requestHandler_route p req =
     (if js_truthy (sessionId p) \<and> req_pathname req = ''/_sandstorm-init''
           \<and> req_query_sessionid req = sessionId p
      then SessionInit
      else if (req_method req = ''POST'' \<or> req_method req = ''PUT'')
              \<and> (case req_content_length req of None \<Rightarrow> True | Some n \<Rightarrow> n > 1024 * 1024)
      then Streaming
      else Buffered)"

text \<open>The \<^verbatim>\<open>.catch\<close> of \<^verbatim>\<open>requestHandler\<close>.\<close>

definition requestHandler_catch :: "js_error \<Rightarrow> proxy \<Rightarrow> http_response \<Rightarrow> proxy \<times> http_response" where
  "requestHandler_catch err p resp =
     (let p1 = setHasLoaded p
      in if headersSent resp then (p1, end_response resp)
         else (case err of
                 MeteorError code reason \<Rightarrow> (p1, end_response (writeHead code reason resp))
               | _ \<Rightarrow> (p1, end_response (writeHead 500 ''Internal Server Error'' resp))))"

text \<open>The buffered route: \<^verbatim>\<open>handleRequest(request, data, response, 0)\<close> and the catch.\<close>

definition requestHandler_buffered ::
  "backend \<Rightarrow> proxy \<Rightarrow> http_request \<Rightarrow> http_response \<Rightarrow> rpc_world
     \<Rightarrow> proxy \<times> http_response \<times> rpc_world" where
  "requestHandler_buffered be p req resp w =
     (case handleRequest be p req (req_body req) resp 0 w of
        (None, p1, resp1, w1) \<Rightarrow> (p1, resp1, w1)
      | (Some err, p1, resp1, w1) \<Rightarrow>
          (case requestHandler_catch err p1 resp1 of (p2, resp2) \<Rightarrow> (p2, resp2, w1)))"

text \<open>The streaming route: \<^verbatim>\<open>handleRequestStreaming(request, response, contentLength, 0)\<close>
  and the catch.\<close>

definition requestHandler_streaming ::
  "backend \<Rightarrow> proxy \<Rightarrow> http_request \<Rightarrow> http_response \<Rightarrow> rpc_world
     \<Rightarrow> proxy \<times> http_response \<times> rpc_world" where
  "requestHandler_streaming be p req resp w =
     (case handleRequestStreaming be p req resp 0 w of
        (None, p1, resp1, w1) \<Rightarrow> (p1, resp1, w1)
      | (Some err, p1, resp1, w1) \<Rightarrow>
          (case requestHandler_catch err p1 resp1 of (p2, resp2) \<Rightarrow> (p2, resp2, w1)))"

text \<open>
  \<^verbatim>\<open>requestHandler\<close> on the two routes embedded here; the session-cookie handshake
  (\<^verbatim>\<open>doSessionInit\<close>) is \<open>None\<close>.
\<close>

definition requestHandler ::
  "backend \<Rightarrow> proxy \<Rightarrow> http_request \<Rightarrow> http_response \<Rightarrow> rpc_world
     \<Rightarrow> (proxy \<times> http_response \<times> rpc_world) option" where
  "requestHandler be p req resp w =
     (case requestHandler_route p req of
        SessionInit \<Rightarrow> None
      | Streaming \<Rightarrow> Some (requestHandler_streaming be p req resp w)
      | Buffered \<Rightarrow> Some (requestHandler_buffered be p req resp w))"

text \<open>The sixteen methods the specification lists as accepted.\<close>

definition accepted_methods :: "string list" where
  "accepted_methods = [''GET'', ''HEAD'', ''POST'', ''PUT'', ''PATCH'', ''DELETE'', ''PROPFIND'',
     ''PROPPATCH'', ''MKCOL'', ''COPY'', ''MOVE'', ''LOCK'', ''UNLOCK'', ''ACL'', ''REPORT'',
     ''OPTIONS'']"

text \<open>The 4xx class of HTTP status codes.\<close>

definition is_client_error :: "nat \<Rightarrow> bool" where
  "is_client_error code = (400 \<le> code \<and> code < 500)"

text \<open>Sample values: a fresh API proxy, a fresh world, requests and backends.\<close>

definition api_proxy :: proxy where
  "api_proxy = \<lparr>grainId = ''g1'', ownerId = ''u1'', identityId = None,
     supervisor = Undefined, sessionId = None, isApi = True, hasLoaded = False,
     websockets = [], websocketCounter = 0, hostId = None,
     userInfo = anonymous_user, uiView = Undefined, session = Undefined, apiToken = None\<rparr>"

definition empty_world :: rpc_world where
  "empty_world = \<lparr>next_handle = 0, calls = [], released = []\<rparr>"

definition get_request :: http_request where
  "get_request = \<lparr>req_method = ''GET'', req_pathname = ''/foo'', req_query_sessionid = None,
     req_content_length = None, req_cookies = Cookies None, req_precondition = Precondition,
     req_content_type_xml = True, req_content_encoding = None, req_destination = NoDestination,
     req_body = Bytes []\<rparr>"

definition trace_request :: http_request where
  "trace_request = get_request\<lparr>req_method := ''TRACE''\<rparr>"

text \<open>A PROPFIND whose XML body is sent gzip-compressed.\<close>

definition gzip_propfind :: http_request where
  "gzip_propfind = get_request\<lparr>req_method := ''PROPFIND'', req_content_length := Some 60,
     req_content_encoding := Some ''gzip'', req_body := Gzip (Bytes ''<propfind/>'')\<rparr>"

text \<open>A POST without \<^verbatim>\<open>content-length\<close>, which takes the streaming route.\<close>

definition streamed_post :: http_request where
  "streamed_post = get_request\<lparr>req_method := ''POST'', req_body := Bytes ''payload''\<rparr>"

definition disconnected :: js_error where
  "disconnected = KjError ''disconnected'' ''Peer disconnected.''"

text \<open>A backend that answers every call.\<close>

definition healthy_backend :: backend where
  "healthy_backend = \<lparr>rpc_reply = (\<lambda>n. RpcReturns (Translated 200 ''OK'')),
                       stream_reply = (\<lambda>n. StreamOpened (Inr (Translated 200 ''OK''))),
                       continue_reply = (\<lambda>n. None)\<rparr>"

text \<open>A backend whose grain is down: every session call fails with a disconnect.\<close>

definition broken_backend :: backend where
  "broken_backend = \<lparr>rpc_reply = (\<lambda>n. RpcThrows disconnected),
                      stream_reply = (\<lambda>n. StreamRefused disconnected),
                      continue_reply = (\<lambda>n. None)\<rparr>"

text \<open>A backend that fails the first session call with a disconnect and answers from
  then on.\<close>

definition recovering_backend :: backend where
  "recovering_backend =
     \<lparr>rpc_reply = (\<lambda>n. if n = 0 then RpcThrows disconnected
                        else RpcReturns (Translated 207 ''Multi-Status'')),
      stream_reply = (\<lambda>n. if n = 0 then StreamRefused disconnected
                           else StreamOpened (Inr (Translated 200 ''OK''))),
      continue_reply = (\<lambda>n. None)\<rparr>"

text \<open>A backend whose grain dies while it handles a request: every call gets through,
  and the response fails with a disconnect.\<close>

definition dying_backend :: backend where
  "dying_backend = \<lparr>rpc_reply = (\<lambda>n. RpcThrows disconnected),
                     stream_reply = (\<lambda>n. StreamOpened (Inl disconnected)),
                     continue_reply = (\<lambda>n. None)\<rparr>"

text \<open>
  A grain that restarts twice and does not implement streaming: the first and the third
  session call fail with a disconnect, a streaming call that gets through is refused as
  unimplemented, and an ordinary call that gets through is answered.
\<close>

definition restarting_backend :: backend where
  "restarting_backend =
     \<lparr>rpc_reply = (\<lambda>n. if n = 0 \<or> n = 2 then RpcThrows disconnected
                        else RpcReturns (Translated 200 ''OK'')),
      stream_reply = (\<lambda>n. if n = 0 \<or> n = 2 then StreamRefused disconnected
                           else StreamRefused (KjError ''unimplemented'' ''Method not implemented.'')),
      continue_reply = (\<lambda>n. None)\<rparr>"

section \<open>Properties of API host ids\<close>

text \<open>The model of SHA-256 reproduces the test vector of the standard for "abc".\<close>

lemma sha256hex_abc:
  "sha256hex ''abc'' = ''ba7816bf8f01cfea414140de5dae2223b00361a396177a9cb410ff61f20015ad''"
  by code_simp

lemma sha256_xa:
  "sha256 (bits_of_string ''xa'') =
     bits_of_hex ''8f26d6fe2a3dafd828081cc3ea3a5d610083c4563fb4f4fe51b2533b1ce44eb0''"
  by code_simp

lemma sha256hex_xa:
  "sha256hex ''xa'' = ''8f26d6fe2a3dafd828081cc3ea3a5d610083c4563fb4f4fe51b2533b1ce44eb0''"
  unfolding sha256hex_def sha256_xa by code_simp

lemma sha256_sha256_xa:
  "hex_of_bits (take 128 (sha256
     (bits_of_hex ''8f26d6fe2a3dafd828081cc3ea3a5d610083c4563fb4f4fe51b2533b1ce44eb0''))) =
     ''929822f6a4b364ef5e1556b87ed28f7d''"
  by code_simp

lemma sha256hex_sha256hex_xa:
  "take 32 (sha256hex ''8f26d6fe2a3dafd828081cc3ea3a5d610083c4563fb4f4fe51b2533b1ce44eb0'') =
     ''3d19005bae6956c4aa707d3577477e37''"
  by code_simp

text \<open>
  Claim C1, as the code has it. For every token and either digest implementation, the
  per-token API host id is "api-" followed by the first 32 hexadecimal digits (128
  bits) of the single digest of "x" followed by the token. It is a function of the
  token alone, so two calls on the same token return the same host id.
\<close>

theorem apiHostIdForToken_single_hash:
  "apiHostIdForToken digest token = ''api-'' @ take 32 (digest (''x'' @ token))"
  by (simp add: apiHostIdForToken_def apiHostIdHashForToken_def)

theorem apiHostIdForToken_single_hash_witness:
  "apiHostIdForToken sha256hex ''a'' = ''api-8f26d6fe2a3dafd828081cc3ea3a5d61''"
  using apiHostIdForToken_single_hash [of sha256hex "''a''"]
  by (simp add: sha256hex_xa)

text \<open>
  Claim C1 as stated fails: for the token "a" the host id is not the double hash of
  "xa", whether the outer hash is taken over the raw inner digest or over its
  hexadecimal form.
\<close>

theorem apiHostIdForToken_not_double_hash:
  "apiHostIdForToken sha256hex ''a'' = ''api-8f26d6fe2a3dafd828081cc3ea3a5d61''
   \<and> double_hash_host_id ''a'' = ''api-929822f6a4b364ef5e1556b87ed28f7d''
   \<and> ''api-'' @ take 32 (sha256hex (sha256hex (''x'' @ ''a''))) =
       ''api-3d19005bae6956c4aa707d3577477e37''
   \<and> apiHostIdForToken sha256hex ''a'' \<noteq> double_hash_host_id ''a''
   \<and> apiHostIdForToken sha256hex ''a'' \<noteq> ''api-'' @ take 32 (sha256hex (sha256hex (''x'' @ ''a'')))"
  by (simp add: apiHostIdForToken_def apiHostIdHashForToken_def double_hash_host_id_def
        sha256_xa sha256hex_xa sha256_sha256_xa sha256hex_sha256hex_xa)

section \<open>Properties of webkey validation\<close>

lemma validate_runs_cleared:
  assumes "db i = Some tok" and "expiresIfUnused tok = None"
  shows "Some ExpiredUnusedToken \<notin> set (fst (validate_runs db i later))
         \<and> snd (validate_runs db i later) = db"
proof (induction later)
  case Nil
  show ?case by simp
next
  case (Cons a later)
  obtain now refreshed where a: "a = (now, refreshed)" by (cases a)
  obtain r db' where v: "validate_by_id db now i refreshed = (r, db')"
    by (cases "validate_by_id db now i refreshed")
  have "fst (validate_by_id db now i refreshed) \<noteq> Some ExpiredUnusedToken"
    and "snd (validate_by_id db now i refreshed) = db"
    using assms by (simp_all add: validate_by_id_def validateWebkey_at_def)
  with v have "r \<noteq> Some ExpiredUnusedToken" "db' = db" by simp_all
  with Cons a v show ?case by (auto split: prod.splits)
qed

text \<open>
  Claim C2, as the code has it. A missing token document is rejected with
  \<^verbatim>\<open>Meteor.Error(403, "Invalid authorization token")\<close>, the same 403 class as every
  other rejection of \<^verbatim>\<open>validateWebkey\<close>, and a revoked one with
  \<^verbatim>\<open>Meteor.Error(403, "Authorization token has been revoked")\<close>; neither call
  changes the collection.
\<close>

theorem validateWebkey_missing_or_revoked:
  "validateWebkey db now None refreshed =
     (Some (MeteorError 403 ''Invalid authorization token''), db)
   \<and> (revoked tok \<longrightarrow>
        validateWebkey db now (Some tok) refreshed =
          (Some (MeteorError 403 ''Authorization token has been revoked''), db))"
  by (simp add: validateWebkey_def validateWebkey_at_def)

theorem validateWebkey_missing_or_revoked_witness:
  "revoked revoked_token
   \<and> validateWebkey Map.empty 0 None None =
       (Some (MeteorError 403 ''Invalid authorization token''), Map.empty)
   \<and> validateWebkey Map.empty 0 (Some revoked_token) None =
       (Some (MeteorError 403 ''Authorization token has been revoked''), Map.empty)"
  using validateWebkey_missing_or_revoked
    [where tok = revoked_token and db = Map.empty and now = 0 and refreshed = None]
  by (simp add: revoked_token_def)

text \<open>
  Claim C2 as stated fails on its first half: with no token document the error is a 403,
  which is in the Forbidden class and not in the NotFound class (404 or 410).
\<close>

theorem validateWebkey_missing_not_NotFound:
  "fst (validateWebkey Map.empty 0 None None) =
     Some (MeteorError 403 ''Invalid authorization token'')
   \<and> \<not> is_not_found (MeteorError 403 ''Invalid authorization token'')
   \<and> is_forbidden (MeteorError 403 ''Invalid authorization token'')"
  by (simp add: validateWebkey_def validateWebkey_at_def is_not_found_def is_forbidden_def)

text \<open>
  Claim C6. Take a token document that validation carries as far as the idle-expiry
  check (it is stored under its own id, is not revoked, has no owner or a webkey owner,
  and has no \<open>expires\<close> date or one in the future) and whose \<open>expiresIfUnused\<close> date
  \<open>t\<close> is in the future. Validating it with no refresh deadline does not fail on idle
  expiry and stores the document with \<open>expiresIfUnused\<close> cleared; and in every later
  run of validations of that token, at any times and with any refresh deadlines, no
  validation ends at the idle-expiry \<^verbatim>\<open>throw\<close>.
\<close>

theorem first_use_clears_expiresIfUnused:
  assumes found: "db i = Some tok" and ident: "token_id tok = i"
    and live: "\<not> revoked tok"
    and webkey: "owner tok = None \<or> (\<exists>ks. owner tok = Some ks \<and> ''webkey'' \<in> set ks)"
    and unexpired: "expires tok = None \<or> (\<exists>e. expires tok = Some e \<and> now < e)"
    and unused: "expiresIfUnused tok = Some t" and early: "now < t"
  shows "fst (validate_by_id db now i None) \<noteq> Some ExpiredUnusedToken
       \<and> snd (validate_by_id db now i None) i = Some (tok\<lparr>expiresIfUnused := None\<rparr>)
       \<and> Some ExpiredUnusedToken
            \<notin> set (fst (validate_runs (snd (validate_by_id db now i None)) i later))"
proof -
  let ?db' = "update_expiresIfUnused db i None"
  have run: "snd (validate_by_id db now i None) = ?db'"
    and ok: "fst (validate_by_id db now i None) \<noteq> Some ExpiredUnusedToken"
    using assms by (auto simp: validate_by_id_def validateWebkey_at_def)
  have stored: "?db' i = Some (tok\<lparr>expiresIfUnused := None\<rparr>)"
    using found by (simp add: update_expiresIfUnused_def)
  have "Some ExpiredUnusedToken \<notin> set (fst (validate_runs ?db' i later))"
    using validate_runs_cleared [where db = "?db'" and i = i and later = later, OF stored]
    by simp
  with run ok stored show ?thesis by simp
qed

theorem first_use_clears_expiresIfUnused_witness:
  "fst (validate_by_id [''h1'' \<mapsto> unused_token] 50 ''h1'' None) = None
   \<and> snd (validate_by_id [''h1'' \<mapsto> unused_token] 50 ''h1'' None) ''h1'' =
       Some (unused_token\<lparr>expiresIfUnused := None\<rparr>)
   \<and> Some ExpiredUnusedToken
        \<notin> set (fst (validate_runs (snd (validate_by_id [''h1'' \<mapsto> unused_token] 50 ''h1'' None))
                   ''h1'' [(200, None), (300, Some 250)]))"
  using first_use_clears_expiresIfUnused
    [where db = "[''h1'' \<mapsto> unused_token]" and i = "''h1''" and tok = unused_token
       and now = 50 and t = 100 and later = "[(200, None), (300, Some 250)]"]
  by (simp add: unused_token_def validate_by_id_def validateWebkey_at_def
        update_expiresIfUnused_def)

text \<open>
  Claim C10. Take a token document that validation carries as far as the idle-expiry
  check (not revoked, no owner or a webkey owner, no \<open>expires\<close> date or one in the
  future), whose \<open>expiresIfUnused\<close> date is in the future and which carries an
  \<open>objectId\<close> or a \<open>frontendRef\<close>. Then \<^verbatim>\<open>validateWebkey\<close> first writes
  \<open>expiresIfUnused\<close> (the refresh deadline when one is given, \<^verbatim>\<open>null\<close> otherwise)
  and then throws the "non-webview Capability" error: the call fails and the stored
  document is changed all the same.
\<close>

theorem non_webview_token_mutated_then_rejected:
  assumes live: "\<not> revoked tok"
    and webkey: "owner tok = None \<or> (\<exists>ks. owner tok = Some ks \<and> ''webkey'' \<in> set ks)"
    and unexpired: "expires tok = None \<or> (\<exists>e. expires tok = Some e \<and> now < e)"
    and unused: "expiresIfUnused tok = Some t" and early: "now < t"
    and capability: "objectId tok \<noteq> None \<or> frontendRef tok \<noteq> None"
  shows "validateWebkey db now (Some tok) refreshed =
           (Some (MeteorError 403 ''ApiToken refers to a non-webview Capability.''),
            update_expiresIfUnused db (token_id tok) refreshed)
       \<and> (db (token_id tok) = Some tok \<longrightarrow>
            snd (validateWebkey db now (Some tok) refreshed) (token_id tok) =
              Some (tok\<lparr>expiresIfUnused := refreshed\<rparr>))"
  using assms
  by (cases refreshed)
     (auto simp: validateWebkey_def validateWebkey_at_def update_expiresIfUnused_def)

theorem non_webview_token_mutated_then_rejected_witness:
  "validateWebkey [''h3'' \<mapsto> capability_token] 50 (Some capability_token) (Some 500) =
     (Some (MeteorError 403 ''ApiToken refers to a non-webview Capability.''),
      update_expiresIfUnused [''h3'' \<mapsto> capability_token] ''h3'' (Some 500))
   \<and> snd (validateWebkey [''h3'' \<mapsto> capability_token] 50 (Some capability_token) (Some 500))
        ''h3'' = Some (capability_token\<lparr>expiresIfUnused := Some 500\<rparr>)"
  using non_webview_token_mutated_then_rejected
    [where tok = capability_token and now = 50 and t = 100
       and db = "[''h3'' \<mapsto> capability_token]" and refreshed = "Some 500"]
  by (simp add: capability_token_def update_expiresIfUnused_def)

section \<open>Properties of the backend health check\<close>

lemma health_run_aborted: "aborted t \<Longrightarrow> health_run t answers = t"
  by (induction answers arbitrary: t) (simp_all add: tick_def ping_result_def)

lemma health_run_general:
  assumes "\<not> aborted s" and "\<not> backendHealthy s" and "disconnectCount s \<le> 3"
  shows "aborted (health_run s answers) = (4 \<le> disconnectCount s + failed_checks answers)
       \<and> reconnects (health_run s answers) =
           reconnects s
           + (min 3 (disconnectCount s + failed_checks answers) - min 3 (disconnectCount s))"
  using assms
proof (induction answers arbitrary: s)
  case Nil
  then show ?case by (simp add: failed_checks_def)
next
  case (Cons a answers)
  let ?s' = "tick (ping_result a s)"
  show ?case
  proof (cases a)
    case True
    have s': "\<not> aborted ?s'" "\<not> backendHealthy ?s'"
      "disconnectCount ?s' = disconnectCount s" "reconnects ?s' = reconnects s"
      using Cons.prems True by (simp_all add: tick_def ping_result_def)
    have le: "disconnectCount ?s' \<le> 3" using s' Cons.prems by simp
    from Cons.IH [OF s'(1,2) le] s' True show ?thesis by (simp add: failed_checks_def)
  next
    case False
    show ?thesis
    proof (cases "disconnectCount s > 2")
      case True
      have ab: "aborted ?s'"
        using Cons.prems False True by (simp add: tick_def ping_result_def)
      have "reconnects ?s' = reconnects s"
        using Cons.prems False True by (simp add: tick_def ping_result_def)
      with ab health_run_aborted [OF ab] True False Cons.prems show ?thesis
        by (simp add: failed_checks_def)
    next
      case small: False
      have s': "\<not> aborted ?s'" "\<not> backendHealthy ?s'"
        "disconnectCount ?s' = disconnectCount s + 1" "reconnects ?s' = reconnects s + 1"
        using Cons.prems False small by (simp_all add: tick_def ping_result_def)
      have le: "disconnectCount ?s' \<le> 3" using s' small by simp
      from Cons.IH [OF s'(1,2) le] s' False small show ?thesis
        by (auto simp add: failed_checks_def min_def)
    qed
  qed
qed

text \<open>
  Claim C4, as the code has it. Whatever the history of ping answers since the process
  started, the process has aborted exactly when four ticks have found their ping
  unanswered; these four need not be consecutive, since \<^verbatim>\<open>disconnectCount\<close> is never
  reset. Each of the first three such ticks closes the backend connection and makes a
  new one; the fourth aborts instead.
\<close>

theorem health_abort_at_fourth_failed_check:
  "aborted (health_run health_started answers) = (4 \<le> failed_checks answers)
   \<and> reconnects (health_run health_started answers) = min 3 (failed_checks answers)"
proof -
  have "\<not> aborted health_started" "\<not> backendHealthy health_started"
    "disconnectCount health_started \<le> 3" "disconnectCount health_started = 0"
    "reconnects health_started = 0"
    by (simp_all add: health_started_def health_init_def tick_def)
  with health_run_general [of health_started answers] show ?thesis by simp
qed

theorem health_abort_at_fourth_failed_check_witness:
  "aborted (health_run health_started [False, True, False, False, True, False])
   \<and> reconnects (health_run health_started [False, True, False, False, True, False]) = 3
   \<and> failed_checks [False, True, False, False, True, False] = 4"
  using health_abort_at_fourth_failed_check [of "[False, True, False, False, True, False]"]
  by (simp add: failed_checks_def)

text \<open>
  Claim C4 as stated fails: after two consecutive failed checks, and after three, the
  process has reconnected each time and has not aborted; it aborts at the fourth.
\<close>

theorem no_abort_after_two_failed_checks:
  "aborted (health_run health_started [False, False]) = False
   \<and> disconnectCount (health_run health_started [False, False]) = 2
   \<and> reconnects (health_run health_started [False, False]) = 2
   \<and> aborted (health_run health_started [False, False, False]) = False
   \<and> aborted (health_run health_started [False, False, False, False]) = True"
  by (simp add: health_started_def health_init_def tick_def ping_result_def)

section \<open>Properties of \<^verbatim>\<open>Proxy.close()\<close>\<close>

lemma close_field_idem: "fst (close_field (fst (close_field r))) = fst (close_field r)"
  by (cases r) simp_all


lemma close_close: "fst (close (fst (close p))) = fst (close p)"
  by (simp add: close_def Let_def close_field_idem)


lemma websockets_close: "websockets (fst (close p)) = []"
  by (simp add: close_def Let_def)




section \<open>Properties of the API proxy cache sweep\<close>

lemma bucket_lookup_put:
  "bucket_lookup (newBucket (put c t p r)) t' p' =
     (if t' = t \<and> p' = p then Some r else bucket_lookup (newBucket c) t' p')"
  by (auto simp: put_def bucket_lookup_def Let_def update_conv' split: option.splits)

lemma oldBucket_put: "oldBucket (put c t p r) = oldBucket c"
  by (simp add: put_def Let_def)

lemma sweep_entry_inv:
  assumes "sweep_inv c0 h0 st"
  shows "sweep_inv c0 h0 (sweep_entry t p st)"
proof -
  obtain c h closed where st: "st = (c, h, closed)" by (cases st)
  from assms st have old: "oldBucket c = oldBucket c0"
    and new: "\<And>t p. bucket_lookup (newBucket c) t p = bucket_lookup (newBucket c0) t p
              \<or> (bucket_lookup (newBucket c0) t p = None
                  \<and> (\<exists>r. bucket_lookup (oldBucket c0) t p = Some r \<and> websockets (h0 r) \<noteq> []
                         \<and> bucket_lookup (newBucket c) t p = Some r))"
    and heap: "\<And>r. if r \<in> set closed
               then websockets (h0 r) = [] \<and> h r = fst (close (h0 r))
               else h r = h0 r"
    by (simp_all add: sweep_inv_def)
  show ?thesis
  proof (cases "bucket_lookup (oldBucket c) t p")
    case None
    with assms st show ?thesis by (simp add: sweep_entry_def)
  next
    case (Some r)
    note oldr = this
    show ?thesis
    proof (cases "bucket_lookup (newBucket c) t p")
      case (Some r')
      with oldr assms st show ?thesis by (simp add: sweep_entry_def)
    next
      case None
      have new0: "bucket_lookup (newBucket c0) t p = None" using new[of t p] None by auto
      have ws: "websockets (h r) = websockets (h0 r)"
        using heap[of r] by (auto simp: websockets_close split: if_splits)
      show ?thesis
      proof (cases "websockets (h r) = []")
        case False
        then have e: "sweep_entry t p st = (put c t p r, h, closed)"
          using st oldr None by (simp add: sweep_entry_def)
        have n': "\<And>t' p'. bucket_lookup (newBucket (put c t p r)) t' p' = bucket_lookup (newBucket c0) t' p'
              \<or> (bucket_lookup (newBucket c0) t' p' = None
                  \<and> (\<exists>r'. bucket_lookup (oldBucket c0) t' p' = Some r' \<and> websockets (h0 r') \<noteq> []
                         \<and> bucket_lookup (newBucket (put c t p r)) t' p' = Some r'))"
          using new new0 oldr old False ws by (auto simp: bucket_lookup_put)
        have o': "oldBucket (put c t p r) = oldBucket c0" using old by (simp add: oldBucket_put)
        show ?thesis unfolding e sweep_inv_def prod.case
          by (intro conjI allI) (rule o', rule n', rule heap)
      next
        case True
        then have e: "sweep_entry t p st = (c, h(r := fst (close (h r))), closed @ [r])"
          using st oldr None by (simp add: sweep_entry_def)
        have h': "\<And>r'. if r' \<in> set (closed @ [r])
               then websockets (h0 r') = [] \<and> (h(r := fst (close (h r)))) r' = fst (close (h0 r'))
               else (h(r := fst (close (h r)))) r' = h0 r'"
        proof -
          fix r'
          have hr: "fst (close (h r)) = fst (close (h0 r))"
            using heap[of r] by (auto simp: close_close split: if_splits)
          show "if r' \<in> set (closed @ [r])
               then websockets (h0 r') = [] \<and> (h(r := fst (close (h r)))) r' = fst (close (h0 r'))
               else (h(r := fst (close (h r)))) r' = h0 r'"
            using heap[of r'] True ws hr by (auto split: if_splits)
        qed
        show ?thesis unfolding e sweep_inv_def prod.case
          by (intro conjI allI) (rule old, rule new, rule h')
      qed
    qed
  qed
qed

lemma sweep_entry_done:
  assumes "sweep_inv c0 h0 st"
  shows "sweep_done c0 h0 t p (sweep_entry t p st)"
proof -
  obtain c h closed where st: "st = (c, h, closed)" by (cases st)
  from assms st have old: "oldBucket c = oldBucket c0"
    and new: "\<And>t p. bucket_lookup (newBucket c) t p = bucket_lookup (newBucket c0) t p
              \<or> (bucket_lookup (newBucket c0) t p = None
                  \<and> (\<exists>r. bucket_lookup (oldBucket c0) t p = Some r \<and> websockets (h0 r) \<noteq> []
                         \<and> bucket_lookup (newBucket c) t p = Some r))"
    and heap: "\<And>r. if r \<in> set closed
               then websockets (h0 r) = [] \<and> h r = fst (close (h0 r))
               else h r = h0 r"
    by (simp_all add: sweep_inv_def)
  show ?thesis
  proof (cases "bucket_lookup (oldBucket c0) t p")
    case None
    then show ?thesis by (simp add: sweep_done_def split: prod.splits)
  next
    case (Some r)
    have ws: "websockets (h r) = websockets (h0 r)"
      using heap[of r] by (auto simp: websockets_close split: if_splits)
    show ?thesis
    proof (cases "bucket_lookup (newBucket c) t p")
      case None
      then show ?thesis using Some old st ws
        by (auto simp: sweep_done_def sweep_entry_def bucket_lookup_put)
    next
      case (Some r')
      then show ?thesis using \<open>bucket_lookup (oldBucket c0) t p = Some r\<close> old st new[of t p]
        by (auto simp: sweep_done_def sweep_entry_def)
    qed
  qed
qed

lemma sweep_entry_stable:
  assumes "sweep_inv c0 h0 st" and "sweep_done c0 h0 t' p' st"
  shows "sweep_done c0 h0 t' p' (sweep_entry t p st)"
proof (cases "t' = t \<and> p' = p")
  case True
  with sweep_entry_done[OF assms(1)] show ?thesis by simp
next
  case False
  obtain c h closed where st: "st = (c, h, closed)" by (cases st)
  from False assms(2) st show ?thesis
    by (auto simp: sweep_done_def sweep_entry_def bucket_lookup_put split: option.splits)
qed

lemma sweep_params_fold:
  assumes "sweep_inv c0 h0 st"
  shows "sweep_inv c0 h0 (fold (\<lambda>(p, _). sweep_entry t p) inner st)
       \<and> (\<forall>t' p'. sweep_done c0 h0 t' p' st \<longrightarrow>
             sweep_done c0 h0 t' p' (fold (\<lambda>(p, _). sweep_entry t p) inner st))
       \<and> (\<forall>p \<in> fst ` set inner. sweep_done c0 h0 t p (fold (\<lambda>(p, _). sweep_entry t p) inner st))"
  using assms
proof (induction inner arbitrary: st)
  case Nil
  then show ?case by simp
next
  case (Cons a inner)
  obtain p x where a: "a = (p, x)" by (cases a)
  let ?st = "sweep_entry t p st"
  have inv: "sweep_inv c0 h0 ?st" using Cons.prems by (rule sweep_entry_inv)
  have dealt: "sweep_done c0 h0 t p ?st" using Cons.prems by (rule sweep_entry_done)
  have stable: "\<And>t' p'. sweep_done c0 h0 t' p' st \<Longrightarrow> sweep_done c0 h0 t' p' ?st"
    using Cons.prems by (rule sweep_entry_stable)
  from Cons.IH[OF inv] dealt stable show ?case by (auto simp: a)
qed

lemma sweep_tokens_fold:
  assumes "sweep_inv c0 h0 st"
  shows "sweep_inv c0 h0 (fold (\<lambda>(t, inner). fold (\<lambda>(p, _). sweep_entry t p) inner) b st)
       \<and> (\<forall>t' p'. sweep_done c0 h0 t' p' st \<longrightarrow>
             sweep_done c0 h0 t' p' (fold (\<lambda>(t, inner). fold (\<lambda>(p, _). sweep_entry t p) inner) b st))
       \<and> (\<forall>(t, inner) \<in> set b. \<forall>p \<in> fst ` set inner.
             sweep_done c0 h0 t p (fold (\<lambda>(t, inner). fold (\<lambda>(p, _). sweep_entry t p) inner) b st))"
  using assms
proof (induction b arbitrary: st)
  case Nil
  then show ?case by simp
next
  case (Cons a b)
  obtain t inner where a: "a = (t, inner)" by (cases a)
  let ?st = "fold (\<lambda>(p, _). sweep_entry t p) inner st"
  from sweep_params_fold[OF Cons.prems, of t inner]
  have inv: "sweep_inv c0 h0 ?st"
    and stable: "\<And>t' p'. sweep_done c0 h0 t' p' st \<Longrightarrow> sweep_done c0 h0 t' p' ?st"
    and dealt: "\<And>p. p \<in> fst ` set inner \<Longrightarrow> sweep_done c0 h0 t p ?st"
    by blast+
  from Cons.IH[OF inv] dealt stable show ?case by (auto simp: a)
qed

lemma sweep_inv_start: "sweep_inv c h (c, h, [])"
  by (simp add: sweep_inv_def)

lemma bucket_lookup_mem:
  assumes "bucket_lookup b t p = Some r"
  shows "\<exists>inner. (t, inner) \<in> set b \<and> p \<in> fst ` set inner"
proof -
  from assms obtain inner where i: "map_of b t = Some inner" and r: "map_of inner p = Some r"
    by (auto simp: bucket_lookup_def split: option.splits)
  from i have "(t, inner) \<in> set b" by (rule map_of_SomeD)
  moreover from r have "(p, r) \<in> set inner" by (rule map_of_SomeD)
  then have "p \<in> fst ` set inner" by force
  ultimately show ?thesis by blast
qed

lemma sweep_loops_result:
  "sweep_inv c h (sweep_loops (c, h, []))
   \<and> (bucket_lookup (oldBucket c) t p = Some r \<longrightarrow> sweep_done c h t p (sweep_loops (c, h, [])))"
proof -
  from sweep_tokens_fold[OF sweep_inv_start, of c h "oldBucket c"]
  have inv: "sweep_inv c h (sweep_loops (c, h, []))"
    and dealt: "\<And>t inner p. (t, inner) \<in> set (oldBucket c) \<Longrightarrow> p \<in> fst ` set inner \<Longrightarrow>
                 sweep_done c h t p (sweep_loops (c, h, []))"
    by (auto simp: sweep_loops_def)
  from inv dealt bucket_lookup_mem[of "oldBucket c" t p r] show ?thesis by blast
qed

text \<open>
  Claim C5, as the code has it. Let a sweep run on any cache and store, and look at a
  pair of keys \<open>(t, p)\<close> and a reference \<open>r\<close>.
  \<^item> If the old bucket held \<open>r\<close> under \<open>(t, p)\<close>, the proxy had no open socket and the
    new bucket had nothing under \<open>(t, p)\<close>, then \<^verbatim>\<open>close()\<close> was called on \<open>r\<close>, the
    store holds the closed proxy, and neither bucket has an entry under \<open>(t, p)\<close>.
  \<^item> If the old bucket held \<open>r\<close> under \<open>(t, p)\<close>, the proxy had an open socket and the
    new bucket had nothing under \<open>(t, p)\<close>, then the cache still holds \<open>r\<close> under
    \<open>(t, p)\<close>.
  \<^item> A proxy with an open socket is never closed by the sweep, and is unchanged in the
    store.
  \<^item> Afterwards the new bucket is empty, and the old bucket holds under \<open>(t, p)\<close> what
    the new bucket held there before; where the new bucket held nothing, it holds the
    old bucket's entry if that proxy had an open socket, and nothing otherwise. So an
    old entry whose keys the new bucket also had is not kept, open sockets or not.
\<close>

theorem sweep_closes_idle_keeps_unshadowed_live:
  "(bucket_lookup (oldBucket c) t p = Some r \<and> websockets (store r) = []
      \<and> bucket_lookup (newBucket c) t p = None \<longrightarrow>
      (case sweep c store of (c', store', closed) \<Rightarrow>
         r \<in> set closed \<and> store' r = fst (close (store r)) \<and> cached c' t p = None))
   \<and> (bucket_lookup (oldBucket c) t p = Some r \<and> websockets (store r) \<noteq> []
      \<and> bucket_lookup (newBucket c) t p = None \<longrightarrow>
      (case sweep c store of (c', store', closed) \<Rightarrow> cached c' t p = Some r))
   \<and> (websockets (store r) \<noteq> [] \<longrightarrow>
      (case sweep c store of (c', store', closed) \<Rightarrow> r \<notin> set closed \<and> store' r = store r))
   \<and> (case sweep c store of (c', store', closed) \<Rightarrow>
         newBucket c' = []
         \<and> bucket_lookup (oldBucket c') t p =
             (case bucket_lookup (newBucket c) t p of
                Some r' \<Rightarrow> Some r'
              | None \<Rightarrow>
                  (case bucket_lookup (oldBucket c) t p of
                     Some r' \<Rightarrow> if websockets (store r') \<noteq> [] then Some r' else None
                   | None \<Rightarrow> None)))"
proof -
  obtain c1 h1 closed where loops: "sweep_loops (c, store, []) = (c1, h1, closed)"
    by (cases "sweep_loops (c, store, [])")
  have sw: "sweep c store = (\<lparr>newBucket = [], oldBucket = newBucket c1\<rparr>, h1, closed)"
    by (simp add: sweep_def loops)
  from sweep_loops_result[of c store t p] loops
  have new: "bucket_lookup (newBucket c1) t p = bucket_lookup (newBucket c) t p
              \<or> (bucket_lookup (newBucket c) t p = None
                  \<and> (\<exists>r. bucket_lookup (oldBucket c) t p = Some r \<and> websockets (store r) \<noteq> []
                         \<and> bucket_lookup (newBucket c1) t p = Some r))"
    and heap: "if r \<in> set closed
               then websockets (store r) = [] \<and> h1 r = fst (close (store r))
               else h1 r = store r"
    and dealt: "\<And>r'. bucket_lookup (oldBucket c) t p = Some r' \<Longrightarrow>
                  sweep_done c store t p (c1, h1, closed)"
    by (simp_all add: sweep_inv_def)
  have empty: "bucket_lookup [] t p = None" by (simp add: bucket_lookup_def)
  have part1: "bucket_lookup (oldBucket c) t p = Some r \<and> websockets (store r) = []
      \<and> bucket_lookup (newBucket c) t p = None \<longrightarrow>
        r \<in> set closed \<and> h1 r = fst (close (store r))
        \<and> cached \<lparr>newBucket = [], oldBucket = newBucket c1\<rparr> t p = None"
    using new heap dealt[of r] by (auto simp: sweep_done_def cached_def empty)
  have part2: "bucket_lookup (oldBucket c) t p = Some r \<and> websockets (store r) \<noteq> []
      \<and> bucket_lookup (newBucket c) t p = None \<longrightarrow>
         cached \<lparr>newBucket = [], oldBucket = newBucket c1\<rparr> t p = Some r"
    using new dealt[of r] by (auto simp: sweep_done_def cached_def empty split: if_splits)
  have part3: "websockets (store r) \<noteq> [] \<longrightarrow> r \<notin> set closed \<and> h1 r = store r"
    using heap by (auto split: if_splits)
  have part4: "bucket_lookup (newBucket c1) t p =
             (case bucket_lookup (newBucket c) t p of
                Some r' \<Rightarrow> Some r'
              | None \<Rightarrow>
                  (case bucket_lookup (oldBucket c) t p of
                     Some r' \<Rightarrow> if websockets (store r') \<noteq> [] then Some r' else None
                   | None \<Rightarrow> None))"
  proof (cases "bucket_lookup (newBucket c) t p")
    case (Some r')
    with new show ?thesis by auto
  next
    case None
    show ?thesis
    proof (cases "bucket_lookup (oldBucket c) t p")
      case none: None
      with None new show ?thesis by auto
    next
      case (Some r')
      with None new dealt[of r'] show ?thesis
        by (auto simp: sweep_done_def split: if_splits)
    qed
  qed
  from part1 part2 part3 part4 show ?thesis unfolding sw by simp
qed

theorem sweep_closes_idle_keeps_unshadowed_live_witness:
  "bucket_lookup (oldBucket sample_cache) ''t1'' ''p2'' = Some 2
   \<and> websockets (sample_store 2) = []
   \<and> bucket_lookup (newBucket sample_cache) ''t1'' ''p2'' = None
   \<and> bucket_lookup (oldBucket sample_cache) ''t1'' ''p1'' = Some 1
   \<and> websockets (sample_store 1) \<noteq> []
   \<and> bucket_lookup (newBucket sample_cache) ''t1'' ''p1'' = None
   \<and> bucket_lookup (newBucket sample_cache) ''t2'' ''p9'' = Some 3
   \<and> (case sweep sample_cache sample_store of (c', store', closed) \<Rightarrow>
        closed = [2] \<and> store' 2 = fst (close idle_proxy) \<and> cached c' ''t1'' ''p2'' = None
        \<and> cached c' ''t1'' ''p1'' = Some 1 \<and> store' 1 = busy_proxy
        \<and> newBucket c' = [] \<and> bucket_lookup (oldBucket c') ''t2'' ''p9'' = Some 3)"
  using sweep_closes_idle_keeps_unshadowed_live[of sample_cache "''t1''" "''p2''" 2 sample_store]
    sweep_closes_idle_keeps_unshadowed_live[of sample_cache "''t1''" "''p1''" 1 sample_store]
    sweep_closes_idle_keeps_unshadowed_live[of sample_cache "''t2''" "''p9''" 3 sample_store]
  by (simp add: sample_cache_def sample_store_def busy_proxy_def idle_proxy_def
        sweep_def sweep_loops_def sweep_entry_def put_def bucket_lookup_def cached_def)

text \<open>
  Claim C5 as stated fails where the old and the new bucket hold different proxies under
  the same keys. The old proxy has open sockets, yet after the sweep it is in neither
  bucket: the cache holds the other proxy under those keys and nothing else. It has not
  been closed either.
\<close>

theorem shadowed_live_entry_not_kept:
  "bucket_lookup (oldBucket shadowed_cache) ''t1'' ''p1'' = Some 1
   \<and> websockets (sample_store 1) \<noteq> []
   \<and> newBucket (fst (sweep shadowed_cache sample_store)) = []
   \<and> oldBucket (fst (sweep shadowed_cache sample_store)) = [(''t1'', [(''p1'', 2)])]
   \<and> cached (fst (sweep shadowed_cache sample_store)) ''t1'' ''p1'' = Some 2
   \<and> snd (snd (sweep shadowed_cache sample_store)) = []"
  by (simp add: shadowed_cache_def sample_store_def busy_proxy_def idle_proxy_def
        sweep_def sweep_loops_def sweep_entry_def put_def bucket_lookup_def cached_def)

section \<open>Properties of \<^verbatim>\<open>getProxyForHostId\<close>\<close>

text \<open>
  Claim C9. Suppose the lookup builds a proxy for host id \<open>h\<close>: the session document
  is found, its token (if it names one) and its grain are found, and the constructor
  returns. If \<open>h\<close> is not a key of the table when the lookup tests it, the lookup rejects
  with \<^verbatim>\<open>Meteor.Error(403, "Session was concurrently closed.")\<close> and leaves the table as
  it is, so the proxy is not installed. In particular this is what happens when the
  first part stored the placeholder under \<open>h\<close> and a session removal deleted the key
  before the lookup finished.
\<close>

theorem concurrently_closed_session:
  assumes session: "find (\<lambda>s. session_hostId s = h) sessions = Some s"
    and token: "js_truthy (session_hashedToken s) \<longrightarrow> tokens (the (session_hashedToken s)) \<noteq> None"
    and grain: "grains (session_grainId s) = Some g"
    and built: "new_Proxy identities (grain_id g) (grain_userId g) (Some (session_id s)) (Some h)
                  (session_identityId s) False Undefined = Inr p"
  shows "(h \<notin> dom table \<longrightarrow>
            getProxyForHostId_lookup sessions tokens grains identities table h opened =
              (Rejected (MeteorError 403 ''Session was concurrently closed.''), table))
       \<and> (fst (getProxyForHostId_start earlier h) = None \<longrightarrow>
            snd (getProxyForHostId_start earlier h) h = Some None
            \<and> h \<notin> dom (fst (session_removed (snd (getProxyForHostId_start earlier h)) h))
            \<and> getProxyForHostId_lookup sessions tokens grains identities
                 (fst (session_removed (snd (getProxyForHostId_start earlier h)) h)) h opened =
                (Rejected (MeteorError 403 ''Session was concurrently closed.''),
                 fst (session_removed (snd (getProxyForHostId_start earlier h)) h)))"
proof -
  have gen: "\<And>table. h \<notin> dom table \<Longrightarrow>
            getProxyForHostId_lookup sessions tokens grains identities table h opened =
              (Rejected (MeteorError 403 ''Session was concurrently closed.''), table)"
    using assms by (auto simp: getProxyForHostId_lookup_def Let_def split: option.splits)
  have rem: "\<And>table. h \<notin> dom (fst (session_removed table h))"
    by (auto simp: session_removed_def split: option.splits)
  have start: "fst (getProxyForHostId_start earlier h) = None \<Longrightarrow>
            snd (getProxyForHostId_start earlier h) h = Some None"
    by (auto simp: getProxyForHostId_start_def split: option.splits)
  from gen rem start show ?thesis by blast
qed

theorem concurrently_closed_session_witness:
  "getProxyForHostId_lookup [sample_session] Map.empty [''g1'' \<mapsto> sample_grain] Map.empty
      Map.empty ''host1'' True =
        (Rejected (MeteorError 403 ''Session was concurrently closed.''), Map.empty)
   \<and> fst (getProxyForHostId_start Map.empty ''host1'') = None
   \<and> snd (getProxyForHostId_start Map.empty ''host1'') ''host1'' = Some None
   \<and> getProxyForHostId_lookup [sample_session] Map.empty [''g1'' \<mapsto> sample_grain] Map.empty
        (fst (session_removed (snd (getProxyForHostId_start Map.empty ''host1'')) ''host1''))
        ''host1'' True =
       (Rejected (MeteorError 403 ''Session was concurrently closed.''),
        fst (session_removed (snd (getProxyForHostId_start Map.empty ''host1'')) ''host1''))"
  using concurrently_closed_session[where h="''host1''" and sessions="[sample_session]"
      and s=sample_session and tokens=Map.empty and grains="[''g1'' \<mapsto> sample_grain]"
      and g=sample_grain and identities=Map.empty and table=Map.empty and earlier=Map.empty
      and opened=True
      and p="\<lparr>grainId = ''g1'', ownerId = ''u1'', identityId = None,
                   supervisor = Undefined, sessionId = Some ''s1'', isApi = False,
                   hasLoaded = False, websockets = [], websocketCounter = 0, hostId = Some ''host1'',
                   userInfo = anonymous_user, uiView = Undefined, session = Undefined,
                   apiToken = None\<rparr>"]
  by (simp add: sample_session_def sample_grain_def js_truthy_def new_Proxy_def
        getProxyForHostId_start_def)

section \<open>Properties of request handling\<close>

lemma session_calls_append:
  "session_calls (w\<lparr>calls := calls w @ cs\<rparr>) =
     session_calls w + length (filter (\<lambda>c. case c of SessionCall m \<Rightarrow> True | _ \<Rightarrow> False) cs)"
  by (simp add: session_calls_def)

lemma reconnections_append:
  "reconnections (w\<lparr>calls := calls w @ cs\<rparr>) =
     reconnections w + length (filter (\<lambda>c. c = ContinueGrain) cs)"
  by (simp add: reconnections_def)

lemma getConnection_calls:
  "session_calls (snd (getConnection p w)) = session_calls w
   \<and> reconnections (snd (getConnection p w)) = reconnections w
   \<and> released (snd (getConnection p w)) = released w"
  by (simp add: getConnection_def session_calls_def reconnections_def Let_def)

lemma getSession_calls:
  "session_calls (snd (getSession p w)) = session_calls w
   \<and> reconnections (snd (getSession p w)) = reconnections w
   \<and> released (snd (getSession p w)) = released w"
proof (cases "getConnection p w")
  case (Pair p1 w1)
  with getConnection_calls[of p w] show ?thesis
    by (simp add: getSession_def session_calls_def reconnections_def)
qed

lemma getConnection_ids:
  "hostId (fst (getConnection p w)) = hostId p \<and> sessionId (fst (getConnection p w)) = sessionId p"
  by (simp add: getConnection_def Let_def)

lemma getSession_ids:
  "hostId (fst (getSession p w)) = hostId p \<and> sessionId (fst (getSession p w)) = sessionId p"
proof (cases "getConnection p w")
  case (Pair p1 w1)
  with getConnection_ids[of p w] show ?thesis by (simp add: getSession_def)
qed

lemma call_for_method_unsupported:
  "m \<notin> set accepted_methods \<Longrightarrow> call_for_method m = None"
  by (simp add: call_for_method_def accepted_methods_def)

lemma select_call_unsupported:
  "req_method req \<notin> set accepted_methods \<Longrightarrow>
     select_call req data resp = (Inl unsupported_method, data, resp)"
  by (simp add: select_call_def call_for_method_unsupported)

lemma makeContext_ids:
  "hostId p' = hostId p \<Longrightarrow> sessionId p' = sessionId p \<Longrightarrow> makeContext p' req = makeContext p req"
  by (simp add: makeContext_def split: cookie_parse.splits)

lemma resetConnection_ids:
  "hostId (fst (resetConnection p)) = hostId p \<and> sessionId (fst (resetConnection p)) = sessionId p"
  by (simp add: resetConnection_def Let_def)

lemma resetConnection_released:
  "snd (resetConnection p) =
     map CapClose (ref_handles (session p) @ ref_handles (uiView p) @ ref_handles (supervisor p))"
  by (cases "session p"; cases "uiView p"; cases "supervisor p")
     (simp_all add: resetConnection_def Let_def)

lemma resetConnection_refs:
  "\<not> is_object (session (fst (resetConnection p)))
   \<and> \<not> is_object (uiView (fst (resetConnection p)))"
  by (cases "session p"; cases "uiView p") (simp_all add: resetConnection_def Let_def is_object_def)

lemma getSession_session: "is_object (session (fst (getSession p w)))"
  by (cases "getConnection p w") (simp add: getSession_def is_object_def)

lemma getSession_reconnected:
  assumes "\<not> is_object (session p)" and "\<not> is_object (uiView p)" and "is_object (supervisor p)"
  shows "calls (snd (getSession p w)) = calls w @ [GetMainView, GetViewInfo]
       \<and> released (snd (getSession p w)) = released w"
  using assms by (simp add: getSession_def getConnection_def Let_def)

lemma attempt_calls:
  "session_calls (snd (snd (snd (snd (attempt be p req data resp w))))) \<le> session_calls w + 1
   \<and> reconnections (snd (snd (snd (snd (attempt be p req data resp w))))) = reconnections w"
proof (cases "makeContext p req")
  case (Some e)
  then show ?thesis by (simp add: attempt_def)
next
  case None
  obtain p1 w1 where gs: "getSession p w = (p1, w1)" by (cases "getSession p w")
  with getSession_calls[of p w]
  have w1: "session_calls w1 = session_calls w" "reconnections w1 = reconnections w" by simp_all
  obtain r data1 resp1 where sc: "select_call req data resp = (r, data1, resp1)"
    by (cases "select_call req data resp")
  show ?thesis
  proof (cases r)
    case (Inl e)
    with None gs sc w1 show ?thesis by (simp add: attempt_def)
  next
    case (Inr name)
    have a: "\<And>nm. session_calls (w1\<lparr>calls := calls w1 @ [SessionCall nm]\<rparr>) = session_calls w + 1"
      "\<And>nm. reconnections (w1\<lparr>calls := calls w1 @ [SessionCall nm]\<rparr>) = reconnections w"
      using w1 by (simp_all add: session_calls_append reconnections_append)
    show ?thesis
    proof (cases "rpc_reply be (session_calls w1)")
      case (RpcThrows err)
      with None gs sc Inr a show ?thesis by (simp add: attempt_def Let_def)
    next
      case (RpcReturns rr)
      with None gs sc Inr a show ?thesis
        by (simp add: attempt_def Let_def split: prod.splits)
    qed
  qed
qed

lemma attempt_throws:
  assumes "makeContext p req = None" and "select_call req data resp = (Inr name, data, resp)"
    and "rpc_reply be (session_calls w) = RpcThrows err"
    and "name = ''options'' \<longrightarrow> kjType err \<noteq> Some ''unimplemented''"
  shows "attempt be p req data resp w =
           (Some err, fst (getSession p w), data, resp,
            (snd (getSession p w))\<lparr>calls := calls (snd (getSession p w)) @ [SessionCall name]\<rparr>)"
proof -
  obtain p1 w1 where gs: "getSession p w = (p1, w1)" by (cases "getSession p w")
  with getSession_calls[of p w] have "session_calls w1 = session_calls w" by simp
  with assms gs show ?thesis by (simp add: attempt_def Let_def)
qed

lemma attempt_translated:
  assumes "makeContext p req = None" and "select_call req data resp = (Inr name, data, resp)"
    and "rpc_reply be (session_calls w) = RpcReturns (Translated code title)"
  shows "attempt be p req data resp w =
           (None, (if name = ''options'' then fst (getSession p w)
                   else setHasLoaded (fst (getSession p w))), data,
            (if name = ''options'' then end_response resp
             else end_response (writeHead code title resp)),
            (snd (getSession p w))\<lparr>calls := calls (snd (getSession p w)) @ [SessionCall name]\<rparr>)"
proof -
  obtain p1 w1 where gs: "getSession p w = (p1, w1)" by (cases "getSession p w")
  with getSession_calls[of p w] have "session_calls w1 = session_calls w" by simp
  with assms gs show ?thesis by (simp add: attempt_def Let_def translateResponse_def)
qed

lemma not_retried:
  "\<not> shouldRestartGrain error retryCount \<Longrightarrow>
     maybeRetryAfterError be p error retryCount w = (Some error, p, w)"
  by (simp add: maybeRetryAfterError_def)

lemma handleRequest_last:
  assumes "1 \<le> retryCount"
  shows "handleRequest be p req data resp retryCount w =
           (case attempt be p req data resp w of (res, p1, data1, resp1, w1) \<Rightarrow> (res, p1, resp1, w1))"
proof -
  obtain res p1 data1 resp1 w1 where a: "attempt be p req data resp w = (res, p1, data1, resp1, w1)"
    by (cases "attempt be p req data resp w") auto
  show ?thesis
  proof (cases res)
    case None
    with a show ?thesis by (subst handleRequest.simps) simp
  next
    case (Some error)
    have "maybeRetryAfterError be p1 error retryCount w1 = (Some error, p1, w1)"
      using assms by (simp add: maybeRetryAfterError_def shouldRestartGrain_def)
    with a Some show ?thesis by (subst handleRequest.simps) simp
  qed
qed

lemma maybeRetry_continue:
  assumes "continue_reply be (reconnections w) = None"
  shows "maybeRetryAfterError be p (KjError ''disconnected'' msg) 0 w =
           (None, (fst (resetConnection p))\<lparr>supervisor := Object (next_handle w)\<rparr>,
            w\<lparr>released := released w @ snd (resetConnection p),
              calls := calls w @ [ContinueGrain], next_handle := next_handle w + 1\<rparr>)"
  using assms
  by (cases "resetConnection p")
     (simp add: maybeRetryAfterError_def shouldRestartGrain_def kjType_def Let_def)

lemma maybeRetry_calls:
  "session_calls (snd (snd (maybeRetryAfterError be p e n w))) = session_calls w
   \<and> reconnections (snd (snd (maybeRetryAfterError be p e n w))) \<le> reconnections w + 1"
  by (cases "resetConnection p")
     (simp add: maybeRetryAfterError_def Let_def session_calls_def reconnections_def
        split: option.splits)

lemma handleRequest_bound:
  "session_calls (snd (snd (snd (handleRequest be p req data resp 0 w)))) \<le> session_calls w + 2
   \<and> reconnections (snd (snd (snd (handleRequest be p req data resp 0 w)))) \<le> reconnections w + 1"
proof -
  obtain res p1 data1 resp1 w1 where a: "attempt be p req data resp w = (res, p1, data1, resp1, w1)"
    by (cases "attempt be p req data resp w") auto
  with attempt_calls[of be p req data resp w]
  have w1: "session_calls w1 \<le> session_calls w + 1" "reconnections w1 = reconnections w"
    by simp_all
  show ?thesis
  proof (cases res)
    case None
    with a w1 show ?thesis by (subst (1 2) handleRequest.simps) simp
  next
    case (Some error)
    obtain r2 p2 w2 where m: "maybeRetryAfterError be p1 error 0 w1 = (r2, p2, w2)"
      by (cases "maybeRetryAfterError be p1 error 0 w1") auto
    with maybeRetry_calls[of be p1 error 0 w1]
    have w2: "session_calls w2 = session_calls w1" "reconnections w2 \<le> reconnections w1 + 1"
      by simp_all
    show ?thesis
    proof (cases r2)
      case (Some e)
      with a \<open>res = Some error\<close> m w1 w2 show ?thesis
        by (subst (1 2) handleRequest.simps) simp
    next
      case None
      obtain res3 p3 data3 resp3 w3
        where a3: "attempt be p2 req data1 resp1 w2 = (res3, p3, data3, resp3, w3)"
        by (cases "attempt be p2 req data1 resp1 w2") auto
      have h: "handleRequest be p req data resp 0 w = (res3, p3, resp3, w3)"
        using a \<open>res = Some error\<close> m None a3
        by (subst handleRequest.simps) (simp add: handleRequest_last)
      from attempt_calls[of be p2 req data1 resp1 w2] a3 w1 w2 show ?thesis unfolding h by simp
    qed
  qed
qed

lemma catch_fresh:
  "\<not> headersSent resp \<Longrightarrow>
     requestHandler_catch err p resp =
       (setHasLoaded p,
        (case err of
           MeteorError code reason \<Rightarrow> end_response (writeHead code reason resp)
         | _ \<Rightarrow> end_response (writeHead 500 ''Internal Server Error'' resp)))"
  by (cases err) (simp_all add: requestHandler_catch_def Let_def)

lemma answered:
  "statusCode (end_response (writeHead code reason resp)) = code
   \<and> statusMessage (end_response (writeHead code reason resp)) = Reason reason
   \<and> ended (end_response (writeHead code reason resp))"
  by (simp add: end_response_def writeHead_def)

lemma handleRequest_unsupported:
  assumes "req_method req \<notin> set accepted_methods"
  shows "handleRequest be p req data resp 0 w =
           (case makeContext p req of
              Some e \<Rightarrow> (Some e, p, resp, w)
            | None \<Rightarrow> (Some unsupported_method, fst (getSession p w), resp, snd (getSession p w)))"
proof (cases "makeContext p req")
  case (Some e)
  then have a: "attempt be p req data resp w = (Some e, p, data, resp, w)"
    by (simp add: attempt_def)
  have "kjType e = None"
    using Some by (auto simp: makeContext_def kjType_def
        split: if_splits cookie_parse.splits precondition_parse.splits option.splits)
  then have "maybeRetryAfterError be p e 0 w = (Some e, p, w)"
    by (simp add: not_retried shouldRestartGrain_def)
  with a Some show ?thesis by (subst handleRequest.simps) simp
next
  case None
  obtain p1 w1 where gs: "getSession p w = (p1, w1)" by (cases "getSession p w")
  have a: "attempt be p req data resp w = (Some unsupported_method, p1, data, resp, w1)"
    using None gs select_call_unsupported[OF assms, of data resp] by (simp add: attempt_def)
  have "maybeRetryAfterError be p1 unsupported_method 0 w1 = (Some unsupported_method, p1, w1)"
    by (simp add: not_retried shouldRestartGrain_def kjType_def unsupported_method_def)
  with a None gs show ?thesis by (subst handleRequest.simps) simp
qed

text \<open>
  Claim C8, as the code has it. A request whose method is none of the sixteen accepted
  ones never takes the streaming route. When \<^verbatim>\<open>handleRequest\<close> handles it and no header
  has been sent, no session call is made, the grain is not continued, and the response
  is ended. If \<^verbatim>\<open>makeContext\<close> throws (the session cookie is missing, wrong or
  duplicated, or a precondition header holds an ill-formed entity tag), nothing at all is
  called and the handler's \<^verbatim>\<open>catch\<close> answers with the code of the \<^verbatim>\<open>Meteor.Error\<close>
  (403 or 400), or with 500 for the plain \<^verbatim>\<open>Error\<close>. Otherwise the final \<^verbatim>\<open>else\<close> of
  the method dispatch throws a plain \<^verbatim>\<open>Error\<close>, which is not retried and which the
  \<^verbatim>\<open>catch\<close> answers with 500 Internal Server Error.
\<close>

theorem unsupported_method_answered_500:
  assumes unsupported: "req_method req \<notin> set accepted_methods"
    and fresh: "\<not> headersSent resp"
  shows "requestHandler_route p req \<noteq> Streaming
       \<and> (case requestHandler_buffered be p req resp w of
            (p', resp', w') \<Rightarrow>
              session_calls w' = session_calls w \<and> reconnections w' = reconnections w
              \<and> ended resp'
              \<and> (case makeContext p req of
                    None \<Rightarrow>
                      statusCode resp' = 500
                      \<and> statusMessage resp' = Reason ''Internal Server Error''
                  | Some e \<Rightarrow>
                      w' = w
                      \<and> statusCode resp' = (case e of MeteorError code reason \<Rightarrow> code | _ \<Rightarrow> 500)))"
proof -
  have route: "requestHandler_route p req \<noteq> Streaming"
    using unsupported by (auto simp: requestHandler_route_def accepted_methods_def)
  have h: "handleRequest be p req (req_body req) resp 0 w =
           (case makeContext p req of
              Some e \<Rightarrow> (Some e, p, resp, w)
            | None \<Rightarrow> (Some unsupported_method, fst (getSession p w), resp, snd (getSession p w)))"
    using unsupported by (rule handleRequest_unsupported)
  show ?thesis
  proof (cases "makeContext p req")
    case None
    with h route fresh getSession_calls[of p w] show ?thesis
      by (simp add: requestHandler_buffered_def catch_fresh answered unsupported_method_def)
  next
    case (Some e)
    with h route fresh show ?thesis
      by (cases e) (simp_all add: requestHandler_buffered_def catch_fresh answered)
  qed
qed

theorem unsupported_method_answered_500_witness:
  "req_method trace_request \<notin> set accepted_methods
   \<and> (case requestHandler_buffered healthy_backend api_proxy trace_request fresh_response empty_world of
        (p', resp', w') \<Rightarrow>
          statusCode resp' = 500 \<and> statusMessage resp' = Reason ''Internal Server Error''
          \<and> ended resp' \<and> session_calls w' = 0)
   \<and> (case requestHandler_buffered healthy_backend api_proxy
             (trace_request\<lparr>req_precondition := InvalidETag\<rparr>) fresh_response empty_world of
        (p', resp', w') \<Rightarrow> statusCode resp' = 400 \<and> ended resp' \<and> w' = empty_world)"
proof -
  have unsupported: "req_method trace_request \<notin> set accepted_methods"
    "req_method (trace_request\<lparr>req_precondition := InvalidETag\<rparr>) \<notin> set accepted_methods"
    by (simp_all add: trace_request_def get_request_def accepted_methods_def)
  have ctx: "makeContext api_proxy trace_request = None"
    "makeContext api_proxy (trace_request\<lparr>req_precondition := InvalidETag\<rparr>)
       = Some (MeteorError 400 ''invalid etag'')"
    by (simp_all add: makeContext_def api_proxy_def js_truthy_def trace_request_def get_request_def)
  have fresh: "\<not> headersSent fresh_response" by (simp add: fresh_response_def)
  have start: "session_calls empty_world = 0"
    by (simp add: session_calls_def empty_world_def)
  from unsupported_method_answered_500 [OF unsupported(1) fresh,
      where be = healthy_backend and w = empty_world and p = api_proxy] ctx(1) start
  have one: "case requestHandler_buffered healthy_backend api_proxy trace_request fresh_response empty_world of
        (p', resp', w') \<Rightarrow>
          statusCode resp' = 500 \<and> statusMessage resp' = Reason ''Internal Server Error''
          \<and> ended resp' \<and> session_calls w' = 0"
    by (auto split: prod.splits)
  from unsupported_method_answered_500 [OF unsupported(2) fresh,
      where be = healthy_backend and w = empty_world and p = api_proxy] ctx(2)
  have two: "case requestHandler_buffered healthy_backend api_proxy
             (trace_request\<lparr>req_precondition := InvalidETag\<rparr>) fresh_response empty_world of
        (p', resp', w') \<Rightarrow> statusCode resp' = 400 \<and> ended resp' \<and> w' = empty_world"
    by (auto split: prod.splits)
  from unsupported(1) one two show ?thesis by simp
qed

text \<open>
  Claim C8 as stated fails on the status class: a TRACE request on an API proxy is
  answered 500, which is not a 4xx code.
\<close>

theorem unsupported_method_not_client_error:
  "req_method trace_request \<notin> set accepted_methods
   \<and> requestHandler_route api_proxy trace_request = Buffered
   \<and> statusCode (fst (snd (requestHandler_buffered healthy_backend api_proxy trace_request
        fresh_response empty_world))) = 500
   \<and> \<not> is_client_error (statusCode (fst (snd (requestHandler_buffered healthy_backend api_proxy
        trace_request fresh_response empty_world))))"
  by (simp add: is_client_error_def requestHandler_buffered_def handleRequest.simps attempt_def
        makeContext_def api_proxy_def js_truthy_def getSession_def getConnection_def
        is_object_def select_call_def call_for_method_def trace_request_def get_request_def
        accepted_methods_def maybeRetryAfterError_def shouldRestartGrain_def kjType_def
        unsupported_method_def requestHandler_catch_def setHasLoaded_def end_response_def
        writeHead_def fresh_response_def empty_world_def requestHandler_route_def Let_def)

lemma reconnected_attempt:
  assumes ctx: "makeContext p req = None"
    and cont: "continue_reply be (reconnections v) = None"
    and v: "released v = released w" "session p1 = session (fst (getSession p w))"
           "uiView p1 = uiView (fst (getSession p w))"
           "supervisor p1 = supervisor (fst (getSession p w))"
           "hostId p1 = hostId p" "sessionId p1 = sessionId p"
  shows "\<exists>p2 w2. maybeRetryAfterError be p1 (KjError ''disconnected'' msg) 0 v = (None, p2, w2)
           \<and> makeContext p2 req = None
           \<and> calls (snd (getSession p2 w2)) = calls v @ [ContinueGrain, GetMainView, GetViewInfo]
           \<and> released (snd (getSession p2 w2)) =
                released w @ map CapClose (ref_handles (session (fst (getSession p w)))
                  @ ref_handles (uiView (fst (getSession p w)))
                  @ ref_handles (supervisor (fst (getSession p w))))
           \<and> session_calls w2 = session_calls v \<and> reconnections w2 = reconnections v + 1"
proof -
  let ?p2 = "(fst (resetConnection p1))\<lparr>supervisor := Object (next_handle v)\<rparr>"
  let ?w2 = "v\<lparr>released := released v @ snd (resetConnection p1),
              calls := calls v @ [ContinueGrain], next_handle := next_handle v + 1\<rparr>"
  have m: "maybeRetryAfterError be p1 (KjError ''disconnected'' msg) 0 v = (None, ?p2, ?w2)"
    using cont by (rule maybeRetry_continue)
  have ctx2: "makeContext ?p2 req = None"
    using ctx v(5,6) resetConnection_ids[of p1] makeContext_ids[of ?p2 p req] by simp
  have refs: "\<not> is_object (session ?p2)" "\<not> is_object (uiView ?p2)" "is_object (supervisor ?p2)"
    using resetConnection_refs[of p1] by (simp_all add: is_object_def)
  from getSession_reconnected[OF refs, of ?w2]
  have gs: "calls (snd (getSession ?p2 ?w2)) = calls v @ [ContinueGrain, GetMainView, GetViewInfo]"
    "released (snd (getSession ?p2 ?w2)) = released v @ snd (resetConnection p1)"
    by simp_all
  have rel: "snd (resetConnection p1) =
      map CapClose (ref_handles (session (fst (getSession p w)))
                  @ ref_handles (uiView (fst (getSession p w)))
                  @ ref_handles (supervisor (fst (getSession p w))))"
    using v(2,3,4) by (simp add: resetConnection_released)
  have cnt: "session_calls ?w2 = session_calls v" "reconnections ?w2 = reconnections v + 1"
    by (simp_all add: session_calls_def reconnections_def)
  from m ctx2 gs rel cnt v(1) show ?thesis by simp
qed

lemma buffered_retry:
  assumes ctx: "makeContext p req = None"
    and sel: "select_call req data resp = (Inr name, data, resp)"
    and first: "rpc_reply be (session_calls w) = RpcThrows (KjError ''disconnected'' msg)"
    and cont: "continue_reply be (reconnections w) = None"
  shows "\<exists>p2 w2. handleRequest be p req data resp 0 w =
            (case attempt be p2 req data resp w2 of (res, p', data', resp', w') \<Rightarrow> (res, p', resp', w'))
           \<and> makeContext p2 req = None
           \<and> calls (snd (getSession p2 w2)) =
                calls (snd (getSession p w)) @ [SessionCall name, ContinueGrain, GetMainView, GetViewInfo]
           \<and> released (snd (getSession p2 w2)) =
                released w @ map CapClose (ref_handles (session (fst (getSession p w)))
                  @ ref_handles (uiView (fst (getSession p w)))
                  @ ref_handles (supervisor (fst (getSession p w))))
           \<and> session_calls w2 = session_calls w + 1 \<and> reconnections w2 = reconnections w + 1"
proof -
  let ?p1 = "fst (getSession p w)"
  let ?v = "(snd (getSession p w))\<lparr>calls := calls (snd (getSession p w)) @ [SessionCall name]\<rparr>"
  have a0: "attempt be p req data resp w = (Some (KjError ''disconnected'' msg), ?p1, data, resp, ?v)"
    using ctx sel first by (rule attempt_throws) (simp add: kjType_def)
  have v: "session_calls ?v = session_calls w + 1" "reconnections ?v = reconnections w"
    "released ?v = released w"
    using getSession_calls[of p w] by (simp_all add: session_calls_append reconnections_append)
  have cont': "continue_reply be (reconnections ?v) = None" using cont v(2) by simp
  from reconnected_attempt[OF ctx cont' v(3), of ?p1 msg] getSession_ids[of p w]
  obtain p2 w2 where m: "maybeRetryAfterError be ?p1 (KjError ''disconnected'' msg) 0 ?v = (None, p2, w2)"
    and ctx2: "makeContext p2 req = None"
    and tr: "calls (snd (getSession p2 w2)) = calls ?v @ [ContinueGrain, GetMainView, GetViewInfo]"
    and rel: "released (snd (getSession p2 w2)) =
                released w @ map CapClose (ref_handles (session (fst (getSession p w)))
                  @ ref_handles (uiView (fst (getSession p w)))
                  @ ref_handles (supervisor (fst (getSession p w))))"
    and cnt: "session_calls w2 = session_calls ?v" "reconnections w2 = reconnections ?v + 1"
    by auto
  have h: "handleRequest be p req data resp 0 w =
            (case attempt be p2 req data resp w2 of (res, p', data', resp', w') \<Rightarrow> (res, p', resp', w'))"
    using a0 m by (subst handleRequest.simps) (simp add: handleRequest_last split: prod.splits)
  from h ctx2 tr rel cnt v show ?thesis by auto
qed

lemma attempt_reaches_call:
  assumes "makeContext p req = None" and "select_call req data resp = (Inr name, data, resp)"
  shows "snd (snd (snd (snd (attempt be p req data resp w)))) =
           (snd (getSession p w))\<lparr>calls := calls (snd (getSession p w)) @ [SessionCall name]\<rparr>"
proof -
  obtain p1 w1 where gs: "getSession p w = (p1, w1)" by (cases "getSession p w")
  show ?thesis
  proof (cases "rpc_reply be (session_calls w1)")
    case (RpcThrows err)
    with assms gs show ?thesis by (simp add: attempt_def Let_def)
  next
    case (RpcReturns r)
    with assms gs show ?thesis by (simp add: attempt_def Let_def split: prod.splits)
  qed
qed

lemma buffered_retry_trace:
  assumes ctx: "makeContext p req = None"
    and sel: "select_call req data resp = (Inr name, data, resp)"
    and first: "rpc_reply be (session_calls w) = RpcThrows (KjError ''disconnected'' msg)"
    and cont: "continue_reply be (reconnections w) = None"
  shows "calls (snd (snd (snd (handleRequest be p req data resp 0 w)))) =
           calls (snd (getSession p w))
             @ [SessionCall name, ContinueGrain, GetMainView, GetViewInfo, SessionCall name]
       \<and> released (snd (snd (snd (handleRequest be p req data resp 0 w)))) =
           released w @ map CapClose (ref_handles (session (fst (getSession p w)))
                  @ ref_handles (uiView (fst (getSession p w)))
                  @ ref_handles (supervisor (fst (getSession p w))))
       \<and> (rpc_reply be (session_calls w + 1) = RpcReturns (Translated code title) \<longrightarrow>
            fst (handleRequest be p req data resp 0 w) = None
            \<and> fst (snd (snd (handleRequest be p req data resp 0 w))) =
                (if name = ''options'' then end_response resp
                 else end_response (writeHead code title resp)))
       \<and> (rpc_reply be (session_calls w + 1) = RpcThrows (KjError ''disconnected'' msg') \<longrightarrow>
            fst (handleRequest be p req data resp 0 w) = Some (KjError ''disconnected'' msg')
            \<and> fst (snd (snd (handleRequest be p req data resp 0 w))) = resp)"
proof -
  from buffered_retry[OF ctx sel first cont] obtain p2 w2
    where h: "handleRequest be p req data resp 0 w =
            (case attempt be p2 req data resp w2 of (res, p', data', resp', w') \<Rightarrow> (res, p', resp', w'))"
      and ctx2: "makeContext p2 req = None"
      and tr: "calls (snd (getSession p2 w2)) =
                calls (snd (getSession p w)) @ [SessionCall name, ContinueGrain, GetMainView, GetViewInfo]"
      and rel: "released (snd (getSession p2 w2)) =
                released w @ map CapClose (ref_handles (session (fst (getSession p w)))
                  @ ref_handles (uiView (fst (getSession p w)))
                  @ ref_handles (supervisor (fst (getSession p w))))"
      and cnt: "session_calls w2 = session_calls w + 1"
    by blast
  have world: "snd (snd (snd (handleRequest be p req data resp 0 w))) =
      (snd (getSession p2 w2))\<lparr>calls := calls (snd (getSession p2 w2)) @ [SessionCall name]\<rparr>"
    using attempt_reaches_call[OF ctx2 sel, of be w2] unfolding h by (auto split: prod.splits)
  have ok: "fst (handleRequest be p req data resp 0 w) = None
            \<and> fst (snd (snd (handleRequest be p req data resp 0 w))) =
                (if name = ''options'' then end_response resp
                 else end_response (writeHead code title resp))"
    if "rpc_reply be (session_calls w + 1) = RpcReturns (Translated code title)"
  proof -
    from that cnt have "rpc_reply be (session_calls w2) = RpcReturns (Translated code title)" by simp
    from attempt_translated[OF ctx2 sel this] show ?thesis unfolding h by simp
  qed
  have again: "fst (handleRequest be p req data resp 0 w) = Some (KjError ''disconnected'' msg')
            \<and> fst (snd (snd (handleRequest be p req data resp 0 w))) = resp"
    if "rpc_reply be (session_calls w + 1) = RpcThrows (KjError ''disconnected'' msg')"
  proof -
    from that cnt have r: "rpc_reply be (session_calls w2) = RpcThrows (KjError ''disconnected'' msg')"
      by simp
    have "attempt be p2 req data resp w2 =
           (Some (KjError ''disconnected'' msg'), fst (getSession p2 w2), data, resp,
            (snd (getSession p2 w2))\<lparr>calls := calls (snd (getSession p2 w2)) @ [SessionCall name]\<rparr>)"
      using ctx2 sel r by (rule attempt_throws) (simp add: kjType_def)
    then show ?thesis unfolding h by simp
  qed
  from world tr rel ok again show ?thesis by simp
qed

lemma old_unimplemented_disconnected:
  "old_unimplemented (KjError ''disconnected'' msg) = KjError ''disconnected'' msg"
  by (simp add: old_unimplemented_def)

lemma not_retried_again:
  "1 \<le> retryCount \<Longrightarrow> maybeRetryAfterError be p error retryCount w = (Some error, p, w)"
  by (simp add: not_retried shouldRestartGrain_def)

lemma streaming_last:
  assumes last: "1 \<le> retryCount"
    and ctx: "makeContext p req = None"
    and sc: "streaming_call req = Some name"
    and impl: "\<not> streaming_unimplemented (stream_reply be (session_calls w))"
  shows "snd (snd (snd (handleRequestStreaming be p req resp retryCount w))) =
           (snd (getSession p w))\<lparr>calls := calls (snd (getSession p w)) @ [SessionCall name]\<rparr>
       \<and> (stream_reply be (session_calls w) = StreamOpened (Inr (Translated code title)) \<longrightarrow>
            fst (handleRequestStreaming be p req resp retryCount w) = None
            \<and> fst (snd (snd (handleRequestStreaming be p req resp retryCount w))) =
                end_response (writeHead code title resp))
       \<and> (stream_reply be (session_calls w) = StreamRefused (KjError ''disconnected'' msg') \<longrightarrow>
            fst (handleRequestStreaming be p req resp retryCount w) = Some (KjError ''disconnected'' msg')
            \<and> fst (snd (snd (handleRequestStreaming be p req resp retryCount w))) = resp)"
proof -
  obtain p1 w1 where gs: "getSession p w = (p1, w1)" by (cases "getSession p w")
  with getSession_calls[of p w] have idx: "session_calls w1 = session_calls w" by simp
  show ?thesis
  proof (cases "stream_reply be (session_calls w)")
    case (StreamOpened x)
    show ?thesis
    proof (cases x)
      case (Inl e)
      with StreamOpened ctx sc gs idx show ?thesis
        by (subst (1 2 3 4 5) handleRequestStreaming.simps) (simp add: Let_def)
    next
      case (Inr r)
      with StreamOpened ctx sc gs idx show ?thesis
        by (subst (1 2 3 4 5) handleRequestStreaming.simps)
           (simp add: Let_def translateResponse_def split: rpc_response.splits)
    qed
  next
    case (StreamRefused err0)
    with impl have ni: "kjType (old_unimplemented err0) \<noteq> Some ''unimplemented''"
      by (simp add: streaming_unimplemented_def)
    have m: "\<And>q v. maybeRetryAfterError be q (old_unimplemented err0) retryCount v
                = (Some (old_unimplemented err0), q, v)"
      using last by (rule not_retried_again)
    from StreamRefused ctx sc gs idx ni m show ?thesis
      by (subst (1 2 3 4 5) handleRequestStreaming.simps)
         (auto simp: Let_def old_unimplemented_disconnected)
  qed
qed

lemma streaming_retry:
  assumes ctx: "makeContext p req = None"
    and sc: "streaming_call req = Some name"
    and first: "stream_reply be (session_calls w) = StreamRefused (KjError ''disconnected'' msg)"
    and cont: "continue_reply be (reconnections w) = None"
  shows "\<exists>p2 w2. handleRequestStreaming be p req resp 0 w = handleRequestStreaming be p2 req resp 1 w2
           \<and> makeContext p2 req = None
           \<and> calls (snd (getSession p2 w2)) =
                calls (snd (getSession p w)) @ [SessionCall name, ContinueGrain, GetMainView, GetViewInfo]
           \<and> released (snd (getSession p2 w2)) =
                released w @ map CapClose (ref_handles (session (fst (getSession p w)))
                  @ ref_handles (uiView (fst (getSession p w)))
                  @ ref_handles (supervisor (fst (getSession p w))))
           \<and> session_calls w2 = session_calls w + 1 \<and> reconnections w2 = reconnections w + 1"
proof -
  let ?p1 = "fst (getSession p w)"
  let ?v = "(snd (getSession p w))\<lparr>calls := calls (snd (getSession p w)) @ [SessionCall name]\<rparr>"
  have v: "session_calls ?v = session_calls w + 1" "reconnections ?v = reconnections w"
    "released ?v = released w" "session_calls (snd (getSession p w)) = session_calls w"
    using getSession_calls[of p w] by (simp_all add: session_calls_append reconnections_append)
  have cont': "continue_reply be (reconnections ?v) = None" using cont v(2) by simp
  from reconnected_attempt[OF ctx cont' v(3), of ?p1 msg] getSession_ids[of p w]
  obtain p2 w2 where m: "maybeRetryAfterError be ?p1 (KjError ''disconnected'' msg) 0 ?v = (None, p2, w2)"
    and ctx2: "makeContext p2 req = None"
    and tr: "calls (snd (getSession p2 w2)) = calls ?v @ [ContinueGrain, GetMainView, GetViewInfo]"
    and rel: "released (snd (getSession p2 w2)) =
                released w @ map CapClose (ref_handles (session (fst (getSession p w)))
                  @ ref_handles (uiView (fst (getSession p w)))
                  @ ref_handles (supervisor (fst (getSession p w))))"
    and cnt: "session_calls w2 = session_calls ?v" "reconnections w2 = reconnections ?v + 1"
    by auto
  obtain p1 w1 where gs: "getSession p w = (p1, w1)" by (cases "getSession p w")
  have h: "handleRequestStreaming be p req resp 0 w = handleRequestStreaming be p2 req resp 1 w2"
    using ctx sc first v(4) m gs
    by (subst handleRequestStreaming.simps)
       (simp add: Let_def old_unimplemented_disconnected shouldRestartGrain_def kjType_def
          split: prod.splits)
  from h ctx2 tr rel cnt v show ?thesis by auto
qed

lemma streaming_retry_trace:
  assumes ctx: "makeContext p req = None"
    and sc: "streaming_call req = Some name"
    and first: "stream_reply be (session_calls w) = StreamRefused (KjError ''disconnected'' msg)"
    and cont: "continue_reply be (reconnections w) = None"
    and impl: "\<not> streaming_unimplemented (stream_reply be (session_calls w + 1))"
  shows "calls (snd (snd (snd (handleRequestStreaming be p req resp 0 w)))) =
           calls (snd (getSession p w))
             @ [SessionCall name, ContinueGrain, GetMainView, GetViewInfo, SessionCall name]
       \<and> released (snd (snd (snd (handleRequestStreaming be p req resp 0 w)))) =
           released w @ map CapClose (ref_handles (session (fst (getSession p w)))
                  @ ref_handles (uiView (fst (getSession p w)))
                  @ ref_handles (supervisor (fst (getSession p w))))
       \<and> (stream_reply be (session_calls w + 1) = StreamOpened (Inr (Translated code title)) \<longrightarrow>
            fst (handleRequestStreaming be p req resp 0 w) = None
            \<and> fst (snd (snd (handleRequestStreaming be p req resp 0 w))) =
                end_response (writeHead code title resp))
       \<and> (stream_reply be (session_calls w + 1) = StreamRefused (KjError ''disconnected'' msg') \<longrightarrow>
            fst (handleRequestStreaming be p req resp 0 w) = Some (KjError ''disconnected'' msg')
            \<and> fst (snd (snd (handleRequestStreaming be p req resp 0 w))) = resp)"
proof -
  from streaming_retry[OF ctx sc first cont, of resp] obtain p2 w2
    where h: "handleRequestStreaming be p req resp 0 w = handleRequestStreaming be p2 req resp 1 w2"
      and ctx2: "makeContext p2 req = None"
      and tr: "calls (snd (getSession p2 w2)) =
                calls (snd (getSession p w)) @ [SessionCall name, ContinueGrain, GetMainView, GetViewInfo]"
      and rel: "released (snd (getSession p2 w2)) =
                released w @ map CapClose (ref_handles (session (fst (getSession p w)))
                  @ ref_handles (uiView (fst (getSession p w)))
                  @ ref_handles (supervisor (fst (getSession p w))))"
      and cnt: "session_calls w2 = session_calls w + 1"
    by blast
  from impl cnt have impl2: "\<not> streaming_unimplemented (stream_reply be (session_calls w2))" by simp
  from streaming_last[OF _ ctx2 sc impl2, of 1 resp code title msg'] tr rel cnt
  show ?thesis unfolding h by simp
qed

lemma streaming_opened:
  assumes ctx: "makeContext p req = None"
    and sc: "streaming_call req = Some name"
    and first: "stream_reply be (session_calls w) = StreamOpened (Inl err)"
  shows "handleRequestStreaming be p req resp retryCount w =
           (Some err, fst (getSession p w), resp,
            (snd (getSession p w))\<lparr>calls := calls (snd (getSession p w)) @ [SessionCall name]\<rparr>)"
proof -
  obtain p1 w1 where gs: "getSession p w = (p1, w1)" by (cases "getSession p w")
  with getSession_calls[of p w] have idx: "session_calls w1 = session_calls w" by simp
  from ctx sc first gs idx show ?thesis
    by (subst handleRequestStreaming.simps) (simp add: Let_def)
qed

lemma streaming_last_bound:
  assumes last: "1 \<le> retryCount"
    and impl: "\<not> streaming_unimplemented (stream_reply be (session_calls w))"
  shows "session_calls (snd (snd (snd (handleRequestStreaming be p req resp retryCount w))))
           \<le> session_calls w + 1
       \<and> reconnections (snd (snd (snd (handleRequestStreaming be p req resp retryCount w))))
           = reconnections w"
proof (cases "makeContext p req")
  case (Some e)
  then show ?thesis by (subst (1 2) handleRequestStreaming.simps) simp
next
  case None
  show ?thesis
  proof (cases "streaming_call req")
    case none: None
    with None getSession_calls[of p w] show ?thesis
      by (subst (1 2) handleRequestStreaming.simps) (auto simp: Let_def split: prod.splits)
  next
    case (Some name)
    from streaming_last[OF last None Some impl, of resp] getSession_calls[of p w]
    show ?thesis by (simp add: session_calls_append reconnections_append)
  qed
qed

lemma streaming_bound:
  assumes impl: "\<not> streaming_unimplemented (stream_reply be (session_calls w + 1))"
  shows "session_calls (snd (snd (snd (handleRequestStreaming be p req resp 0 w))))
           \<le> session_calls w + 3
       \<and> reconnections (snd (snd (snd (handleRequestStreaming be p req resp 0 w))))
           \<le> reconnections w + 1"
proof (cases "makeContext p req")
  case (Some e)
  then show ?thesis by (subst (1 2) handleRequestStreaming.simps) simp
next
  case None
  obtain p1 w1 where gs: "getSession p w = (p1, w1)" by (cases "getSession p w")
  with getSession_calls[of p w]
  have w1: "session_calls w1 = session_calls w" "reconnections w1 = reconnections w" by simp_all
  show ?thesis
  proof (cases "streaming_call req")
    case none: None
    with None gs w1 show ?thesis
      by (subst (1 2) handleRequestStreaming.simps) (simp add: Let_def)
  next
    case (Some name)
    let ?v = "w1\<lparr>calls := calls w1 @ [SessionCall name]\<rparr>"
    have v: "session_calls ?v = session_calls w + 1" "reconnections ?v = reconnections w"
      using w1 by (simp_all add: session_calls_append reconnections_append)
    show ?thesis
    proof (cases "stream_reply be (session_calls w)")
      case (StreamOpened x)
      with None Some gs w1 v show ?thesis
        by (subst (1 2) handleRequestStreaming.simps)
           (cases x; simp add: Let_def split: prod.splits)
    next
      case (StreamRefused err0)
      let ?err = "old_unimplemented err0"
      show ?thesis
      proof (cases "shouldRestartGrain ?err 0")
        case True
        obtain r2 p2 w2 where m: "maybeRetryAfterError be p1 ?err 0 ?v = (r2, p2, w2)"
          by (cases "maybeRetryAfterError be p1 ?err 0 ?v") auto
        with maybeRetry_calls[of be p1 ?err 0 ?v] v
        have w2: "session_calls w2 = session_calls w + 1" "reconnections w2 \<le> reconnections w + 1"
          by simp_all
        show ?thesis
        proof (cases r2)
          case (Some e)
          with None \<open>streaming_call req = Some name\<close> gs w1 StreamRefused True m w2 show ?thesis
            by (subst (1 2) handleRequestStreaming.simps) (simp add: Let_def)
        next
          case none2: None
          have h: "handleRequestStreaming be p req resp 0 w
                     = handleRequestStreaming be p2 req resp 1 w2"
            using None \<open>streaming_call req = Some name\<close> gs w1 StreamRefused True m none2
            by (subst handleRequestStreaming.simps) (simp add: Let_def)
          from impl w2 have "\<not> streaming_unimplemented (stream_reply be (session_calls w2))" by simp
          from streaming_last_bound[OF _ this, of 1 p2 req resp] w2 show ?thesis
            unfolding h by simp
        qed
      next
        case False
        show ?thesis
        proof (cases "kjType ?err = Some ''unimplemented''")
          case True
          have h: "handleRequestStreaming be p req resp 0 w
                     = handleRequest be p1 req (req_body req) resp 0 ?v"
            using None \<open>streaming_call req = Some name\<close> gs w1 StreamRefused False True
            by (subst handleRequestStreaming.simps) (simp add: Let_def)
          from handleRequest_bound[of be p1 req "req_body req" resp ?v] v show ?thesis
            unfolding h by simp
        next
          case unimpl: False
          with None \<open>streaming_call req = Some name\<close> gs w1 StreamRefused False v show ?thesis
            by (subst (1 2) handleRequestStreaming.simps) (simp add: Let_def)
        qed
      qed
    qed
  qed
qed

lemma requestHandler_buffered_world:
  "snd (snd (requestHandler_buffered be p req resp w)) =
     snd (snd (snd (handleRequest be p req (req_body req) resp 0 w)))"
  by (simp add: requestHandler_buffered_def split: prod.splits option.splits)

lemma requestHandler_buffered_resp:
  "fst (snd (requestHandler_buffered be p req resp w)) =
     (case fst (handleRequest be p req (req_body req) resp 0 w) of
        None \<Rightarrow> fst (snd (snd (handleRequest be p req (req_body req) resp 0 w)))
      | Some err \<Rightarrow>
          snd (requestHandler_catch err (fst (snd (handleRequest be p req (req_body req) resp 0 w)))
                 (fst (snd (snd (handleRequest be p req (req_body req) resp 0 w))))))"
  by (simp add: requestHandler_buffered_def split: prod.splits option.splits)

lemma requestHandler_streaming_world:
  "snd (snd (requestHandler_streaming be p req resp w)) =
     snd (snd (snd (handleRequestStreaming be p req resp 0 w)))"
  by (simp add: requestHandler_streaming_def split: prod.splits option.splits)

lemma requestHandler_streaming_resp:
  "fst (snd (requestHandler_streaming be p req resp w)) =
     (case fst (handleRequestStreaming be p req resp 0 w) of
        None \<Rightarrow> fst (snd (snd (handleRequestStreaming be p req resp 0 w)))
      | Some err \<Rightarrow>
          snd (requestHandler_catch err (fst (snd (handleRequestStreaming be p req resp 0 w)))
                 (fst (snd (snd (handleRequestStreaming be p req resp 0 w))))))"
  by (simp add: requestHandler_streaming_def split: prod.splits option.splits)

lemma catch_kj_fresh:
  "\<not> headersSent resp \<Longrightarrow>
     snd (requestHandler_catch (KjError kind msg) p resp) =
       end_response (writeHead 500 ''Internal Server Error'' resp)"
  by (simp add: catch_fresh)

text \<open>
  Claim C3, as the code has it, with \<^verbatim>\<open>shouldRestartGrain\<close> as the specification
  describes it. Take a request that passes \<^verbatim>\<open>makeContext\<close>, a response whose header
  has not been sent, and a grain that can be continued.

  \<^item> Buffered route: if the method dispatch reaches a session call without rewriting
    the request body and that call fails with a disconnect, the proxy closes its
    session, view and supervisor capabilities, continues the grain, negotiates view and
    session again and repeats the call, and that is all it calls. If the repeated call
    is answered, its answer is the response; if it fails with a disconnect again, the
    response is 500 Internal Server Error.
  \<^item> Streaming route: if the streaming call is refused with a disconnect, the same
    happens with the streaming call, as long as the repeated streaming call is not
    refused as unimplemented.
  \<^item> Streaming route: if the request stream is opened and the response then fails
    with an RPC error, nothing is retried: the one streaming call is all that is called,
    nothing is closed, and the response is 500 Internal Server Error.

  Whatever the request and the backend, the buffered route makes at most two session
  calls and continues the grain at most once; so does the streaming route with at most
  three session calls (the refused streaming call and the buffered fallback), as long as
  the streaming call made after one session call is not refused as unimplemented.
\<close>

theorem transient_error_retry_by_route:
  "(makeContext p req = None \<and> continue_reply be (reconnections w) = None
      \<and> \<not> headersSent resp \<longrightarrow>
      (select_call req (req_body req) resp = (Inr name, req_body req, resp)
         \<and> rpc_reply be (session_calls w) = RpcThrows (KjError ''disconnected'' msg) \<longrightarrow>
         (case requestHandler_buffered be p req resp w of
            (p', resp', w') \<Rightarrow>
              calls w' = calls (snd (getSession p w))
                @ [SessionCall name, ContinueGrain, GetMainView, GetViewInfo, SessionCall name]
              \<and> released w' = released w
                  @ map CapClose (ref_handles (session (fst (getSession p w)))
                      @ ref_handles (uiView (fst (getSession p w)))
                      @ ref_handles (supervisor (fst (getSession p w))))
              \<and> (rpc_reply be (session_calls w + 1) = RpcReturns (Translated code title) \<longrightarrow>
                   resp' = (if name = ''options'' then end_response resp
                            else end_response (writeHead code title resp)))
              \<and> (rpc_reply be (session_calls w + 1) = RpcThrows (KjError ''disconnected'' msg') \<longrightarrow>
                   resp' = end_response (writeHead 500 ''Internal Server Error'' resp))))
      \<and> (streaming_call req = Some name
         \<and> stream_reply be (session_calls w) = StreamRefused (KjError ''disconnected'' msg)
         \<and> \<not> streaming_unimplemented (stream_reply be (session_calls w + 1)) \<longrightarrow>
         (case requestHandler_streaming be p req resp w of
            (p', resp', w') \<Rightarrow>
              calls w' = calls (snd (getSession p w))
                @ [SessionCall name, ContinueGrain, GetMainView, GetViewInfo, SessionCall name]
              \<and> released w' = released w
                  @ map CapClose (ref_handles (session (fst (getSession p w)))
                      @ ref_handles (uiView (fst (getSession p w)))
                      @ ref_handles (supervisor (fst (getSession p w))))
              \<and> (stream_reply be (session_calls w + 1) = StreamOpened (Inr (Translated code title)) \<longrightarrow>
                   resp' = end_response (writeHead code title resp))
              \<and> (stream_reply be (session_calls w + 1) = StreamRefused (KjError ''disconnected'' msg') \<longrightarrow>
                   resp' = end_response (writeHead 500 ''Internal Server Error'' resp))))
      \<and> (streaming_call req = Some name
         \<and> stream_reply be (session_calls w) = StreamOpened (Inl (KjError kind msg)) \<longrightarrow>
         (case requestHandler_streaming be p req resp w of
            (p', resp', w') \<Rightarrow>
              calls w' = calls (snd (getSession p w)) @ [SessionCall name]
              \<and> released w' = released w
              \<and> resp' = end_response (writeHead 500 ''Internal Server Error'' resp))))
   \<and> (case requestHandler_buffered be p req resp w of
         (p', resp', w') \<Rightarrow>
           session_calls w' \<le> session_calls w + 2 \<and> reconnections w' \<le> reconnections w + 1)
   \<and> (\<not> streaming_unimplemented (stream_reply be (session_calls w + 1)) \<longrightarrow>
       (case requestHandler_streaming be p req resp w of
         (p', resp', w') \<Rightarrow>
           session_calls w' \<le> session_calls w + 3 \<and> reconnections w' \<le> reconnections w + 1))"
proof -
  let ?trace = "calls (snd (getSession p w))
                @ [SessionCall name, ContinueGrain, GetMainView, GetViewInfo, SessionCall name]"
  let ?closed = "released w
                  @ map CapClose (ref_handles (session (fst (getSession p w)))
                      @ ref_handles (uiView (fst (getSession p w)))
                      @ ref_handles (supervisor (fst (getSession p w))))"
  let ?failed = "end_response (writeHead 500 ''Internal Server Error'' resp)"
  let ?B = "requestHandler_buffered be p req resp w"
  let ?S = "requestHandler_streaming be p req resp w"
  have buffered: "calls (snd (snd ?B)) = ?trace \<and> released (snd (snd ?B)) = ?closed
      \<and> (rpc_reply be (session_calls w + 1) = RpcReturns (Translated code title) \<longrightarrow>
           fst (snd ?B) = (if name = ''options'' then end_response resp
                           else end_response (writeHead code title resp)))
      \<and> (rpc_reply be (session_calls w + 1) = RpcThrows (KjError ''disconnected'' msg') \<longrightarrow>
           fst (snd ?B) = ?failed)"
    if ctx: "makeContext p req = None" and cont: "continue_reply be (reconnections w) = None"
      and fresh: "\<not> headersSent resp"
      and sel: "select_call req (req_body req) resp = (Inr name, req_body req, resp)"
      and first: "rpc_reply be (session_calls w) = RpcThrows (KjError ''disconnected'' msg)"
    using buffered_retry_trace[OF ctx sel first cont, of code title msg'] fresh
    by (simp add: requestHandler_buffered_world requestHandler_buffered_resp catch_kj_fresh)
  have streaming: "calls (snd (snd ?S)) = ?trace \<and> released (snd (snd ?S)) = ?closed
      \<and> (stream_reply be (session_calls w + 1) = StreamOpened (Inr (Translated code title)) \<longrightarrow>
           fst (snd ?S) = end_response (writeHead code title resp))
      \<and> (stream_reply be (session_calls w + 1) = StreamRefused (KjError ''disconnected'' msg') \<longrightarrow>
           fst (snd ?S) = ?failed)"
    if ctx: "makeContext p req = None" and cont: "continue_reply be (reconnections w) = None"
      and fresh: "\<not> headersSent resp"
      and sc: "streaming_call req = Some name"
      and first: "stream_reply be (session_calls w) = StreamRefused (KjError ''disconnected'' msg)"
      and impl: "\<not> streaming_unimplemented (stream_reply be (session_calls w + 1))"
    using streaming_retry_trace[OF ctx sc first cont impl, of resp code title msg'] fresh
    by (simp add: requestHandler_streaming_world requestHandler_streaming_resp catch_kj_fresh)
  have opened: "calls (snd (snd ?S)) = calls (snd (getSession p w)) @ [SessionCall name]
      \<and> released (snd (snd ?S)) = released w \<and> fst (snd ?S) = ?failed"
    if ctx: "makeContext p req = None" and fresh: "\<not> headersSent resp"
      and sc: "streaming_call req = Some name"
      and first: "stream_reply be (session_calls w) = StreamOpened (Inl (KjError kind msg))"
    using streaming_opened[OF ctx sc first, of resp 0] fresh getSession_calls[of p w]
    by (simp add: requestHandler_streaming_world requestHandler_streaming_resp catch_kj_fresh)
  have bound_buffered: "session_calls (snd (snd ?B)) \<le> session_calls w + 2
      \<and> reconnections (snd (snd ?B)) \<le> reconnections w + 1"
    using handleRequest_bound[of be p req "req_body req" resp w]
    by (simp add: requestHandler_buffered_world)
  have bound_streaming: "session_calls (snd (snd ?S)) \<le> session_calls w + 3
      \<and> reconnections (snd (snd ?S)) \<le> reconnections w + 1"
    if "\<not> streaming_unimplemented (stream_reply be (session_calls w + 1))"
    using streaming_bound[OF that, of p req resp] by (simp add: requestHandler_streaming_world)
  obtain pb rb wb where B: "?B = (pb, rb, wb)" by (cases ?B)
  obtain ps rs ws where S: "?S = (ps, rs, ws)" by (cases ?S)
  have B': "fst (snd ?B) = rb" "snd (snd ?B) = wb" and S': "fst (snd ?S) = rs" "snd (snd ?S) = ws"
    by (simp_all add: B S)
  note facts = buffered[unfolded B'] streaming[unfolded S'] opened[unfolded S']
    bound_buffered[unfolded B'] bound_streaming[unfolded S']
  show ?thesis
    unfolding B S prod.case using facts by blast
qed

theorem transient_error_retry_by_route_witness:
  "(case requestHandler_buffered recovering_backend api_proxy get_request fresh_response empty_world of
      (p', resp', w') \<Rightarrow>
        calls w' = [GetGrain, GetMainView, GetViewInfo, SessionCall ''get'',
                    ContinueGrain, GetMainView, GetViewInfo, SessionCall ''get'']
        \<and> released w' = [CapClose 2, CapClose 1, CapClose 0]
        \<and> resp' = end_response (writeHead 207 ''Multi-Status'' fresh_response)
        \<and> session_calls w' \<le> 2 \<and> reconnections w' \<le> 1)
   \<and> (case requestHandler_buffered broken_backend api_proxy get_request fresh_response empty_world of
        (p', resp', w') \<Rightarrow>
          calls w' = [GetGrain, GetMainView, GetViewInfo, SessionCall ''get'',
                      ContinueGrain, GetMainView, GetViewInfo, SessionCall ''get'']
          \<and> resp' = end_response (writeHead 500 ''Internal Server Error'' fresh_response))
   \<and> (case requestHandler_streaming recovering_backend api_proxy streamed_post fresh_response empty_world of
        (p', resp', w') \<Rightarrow>
          calls w' = [GetGrain, GetMainView, GetViewInfo, SessionCall ''postStreaming'',
                      ContinueGrain, GetMainView, GetViewInfo, SessionCall ''postStreaming'']
          \<and> released w' = [CapClose 2, CapClose 1, CapClose 0]
          \<and> resp' = end_response (writeHead 200 ''OK'' fresh_response)
          \<and> session_calls w' \<le> 3 \<and> reconnections w' \<le> 1)
   \<and> (case requestHandler_streaming dying_backend api_proxy streamed_post fresh_response empty_world of
        (p', resp', w') \<Rightarrow>
          calls w' = [GetGrain, GetMainView, GetViewInfo, SessionCall ''postStreaming'']
          \<and> released w' = []
          \<and> resp' = end_response (writeHead 500 ''Internal Server Error'' fresh_response))"
proof -
  have ctx: "makeContext api_proxy get_request = None" "makeContext api_proxy streamed_post = None"
    by (simp_all add: makeContext_def api_proxy_def js_truthy_def get_request_def streamed_post_def)
  have fresh: "\<not> headersSent fresh_response" by (simp add: fresh_response_def)
  have sel: "select_call get_request (req_body get_request) fresh_response
               = (Inr ''get'', req_body get_request, fresh_response)"
    by (simp add: select_call_def call_for_method_def get_request_def)
  have sc: "streaming_call streamed_post = Some ''postStreaming''"
    by (simp add: streaming_call_def streamed_post_def get_request_def)
  have start: "session_calls empty_world = 0" "reconnections empty_world = 0"
    "released empty_world = []"
    by (simp_all add: session_calls_def reconnections_def empty_world_def)
  have gs: "calls (snd (getSession api_proxy empty_world)) = [GetGrain, GetMainView, GetViewInfo]"
    "session (fst (getSession api_proxy empty_world)) = Object 2"
    "uiView (fst (getSession api_proxy empty_world)) = Object 1"
    "supervisor (fst (getSession api_proxy empty_world)) = Object 0"
    by (simp_all add: getSession_def getConnection_def is_object_def api_proxy_def empty_world_def
          Let_def)
  have recovering: "rpc_reply recovering_backend 0 = RpcThrows (KjError ''disconnected'' ''Peer disconnected.'')"
    "continue_reply recovering_backend 0 = None"
    "rpc_reply recovering_backend (0 + 1) = RpcReturns (Translated 207 ''Multi-Status'')"
    "stream_reply recovering_backend 0 = StreamRefused (KjError ''disconnected'' ''Peer disconnected.'')"
    "stream_reply recovering_backend (0 + 1) = StreamOpened (Inr (Translated 200 ''OK''))"
    "\<not> streaming_unimplemented (stream_reply recovering_backend (0 + 1))"
    by (simp_all add: recovering_backend_def disconnected_def streaming_unimplemented_def)
  have broken: "rpc_reply broken_backend 0 = RpcThrows (KjError ''disconnected'' ''Peer disconnected.'')"
    "continue_reply broken_backend 0 = None"
    "rpc_reply broken_backend (0 + 1) = RpcThrows (KjError ''disconnected'' ''Peer disconnected.'')"
    by (simp_all add: broken_backend_def disconnected_def)
  have dying: "stream_reply dying_backend 0 = StreamOpened (Inl (KjError ''disconnected'' ''Peer disconnected.''))"
    "continue_reply dying_backend 0 = None"
    by (simp_all add: dying_backend_def disconnected_def)
  from transient_error_retry_by_route [where p = api_proxy and req = get_request
      and resp = fresh_response and name = "''get''" and be = recovering_backend
      and w = empty_world and code = 207 and title = "''Multi-Status''"
      and msg = "''Peer disconnected.''"]
    ctx fresh sel start gs recovering
  have one: "case requestHandler_buffered recovering_backend api_proxy get_request fresh_response empty_world of
      (p', resp', w') \<Rightarrow>
        calls w' = [GetGrain, GetMainView, GetViewInfo, SessionCall ''get'',
                    ContinueGrain, GetMainView, GetViewInfo, SessionCall ''get'']
        \<and> released w' = [CapClose 2, CapClose 1, CapClose 0]
        \<and> resp' = end_response (writeHead 207 ''Multi-Status'' fresh_response)
        \<and> session_calls w' \<le> 2 \<and> reconnections w' \<le> 1"
    by (auto split: prod.splits)
  from transient_error_retry_by_route [where p = api_proxy and req = get_request
      and resp = fresh_response and name = "''get''" and be = broken_backend
      and w = empty_world and msg = "''Peer disconnected.''" and msg' = "''Peer disconnected.''"]
    ctx fresh sel start gs broken
  have two: "case requestHandler_buffered broken_backend api_proxy get_request fresh_response empty_world of
        (p', resp', w') \<Rightarrow>
          calls w' = [GetGrain, GetMainView, GetViewInfo, SessionCall ''get'',
                      ContinueGrain, GetMainView, GetViewInfo, SessionCall ''get'']
          \<and> resp' = end_response (writeHead 500 ''Internal Server Error'' fresh_response)"
    by (auto split: prod.splits)
  from transient_error_retry_by_route [where p = api_proxy and req = streamed_post
      and resp = fresh_response and name = "''postStreaming''" and be = recovering_backend
      and w = empty_world and code = 200 and title = "''OK''"
      and msg = "''Peer disconnected.''"]
    ctx fresh sc start gs recovering
  have three: "case requestHandler_streaming recovering_backend api_proxy streamed_post fresh_response empty_world of
        (p', resp', w') \<Rightarrow>
          calls w' = [GetGrain, GetMainView, GetViewInfo, SessionCall ''postStreaming'',
                      ContinueGrain, GetMainView, GetViewInfo, SessionCall ''postStreaming'']
          \<and> released w' = [CapClose 2, CapClose 1, CapClose 0]
          \<and> resp' = end_response (writeHead 200 ''OK'' fresh_response)
          \<and> session_calls w' \<le> 3 \<and> reconnections w' \<le> 1"
    by (auto split: prod.splits)
  from transient_error_retry_by_route [where p = api_proxy and req = streamed_post
      and resp = fresh_response and name = "''postStreaming''" and be = dying_backend
      and w = empty_world and kind = "''disconnected''" and msg = "''Peer disconnected.''"]
    ctx fresh sc start gs dying
  have four: "case requestHandler_streaming dying_backend api_proxy streamed_post fresh_response empty_world of
        (p', resp', w') \<Rightarrow>
          calls w' = [GetGrain, GetMainView, GetViewInfo, SessionCall ''postStreaming'']
          \<and> released w' = []
          \<and> resp' = end_response (writeHead 500 ''Internal Server Error'' fresh_response)"
    by (auto split: prod.splits)
  from one two three four show ?thesis by simp
qed

text \<open>
  Claim C3 as stated fails on the streaming route: a POST without \<^verbatim>\<open>content-length\<close>
  is streamed, the grain accepts the stream and dies, and the response fails with a
  disconnect, an error \<^verbatim>\<open>shouldRestartGrain\<close> would retry. The handler answers 500
  after the one session call, without continuing the grain.
\<close>

theorem opened_stream_error_not_retried:
  "requestHandler_route api_proxy streamed_post = Streaming
   \<and> stream_reply dying_backend 0 = StreamOpened (Inl disconnected)
   \<and> shouldRestartGrain disconnected 0
   \<and> session_calls (snd (snd (requestHandler_streaming dying_backend api_proxy streamed_post
        fresh_response empty_world))) = 1
   \<and> reconnections (snd (snd (requestHandler_streaming dying_backend api_proxy streamed_post
        fresh_response empty_world))) = 0
   \<and> statusCode (fst (snd (requestHandler_streaming dying_backend api_proxy streamed_post
        fresh_response empty_world))) = 500"
  by (simp add: requestHandler_route_def requestHandler_streaming_def handleRequestStreaming.simps
        makeContext_def api_proxy_def js_truthy_def getSession_def getConnection_def
        is_object_def streaming_call_def streamed_post_def get_request_def dying_backend_def
        disconnected_def shouldRestartGrain_def kjType_def session_calls_def reconnections_def
        requestHandler_catch_def setHasLoaded_def end_response_def writeHead_def
        fresh_response_def empty_world_def Let_def)

text \<open>
  Two runs that the statement above leaves out. In the first, a streamed POST meets a
  grain that disconnects, is continued, then refuses the repeated streaming call as
  unimplemented; the fallback calls \<^verbatim>\<open>handleRequest\<close> with retry count 0, so a
  disconnect there is retried again: four session calls and two continuations of the
  grain for one request. In the second, a PROPFIND with a gzip body meets one disconnect;
  the replay is given the body that the first attempt decompressed, fails to decompress
  it again, and the request is answered 500 after one session call although the grain
  was continued.
\<close>

lemma streaming_fallback_restarts_retry_count:
  "requestHandler_route api_proxy streamed_post = Streaming
   \<and> calls (snd (snd (requestHandler_streaming restarting_backend api_proxy streamed_post
        fresh_response empty_world))) =
       [GetGrain, GetMainView, GetViewInfo, SessionCall ''postStreaming'',
        ContinueGrain, GetMainView, GetViewInfo, SessionCall ''postStreaming'',
        SessionCall ''post'',
        ContinueGrain, GetMainView, GetViewInfo, SessionCall ''post'']
   \<and> statusCode (fst (snd (requestHandler_streaming restarting_backend api_proxy streamed_post
        fresh_response empty_world))) = 200"
  by (simp add: requestHandler_route_def requestHandler_streaming_def handleRequestStreaming.simps
        handleRequest.simps attempt_def select_call_def call_for_method_def translateResponse_def
        maybeRetryAfterError_def resetConnection_def old_unimplemented_def
        makeContext_def api_proxy_def js_truthy_def getSession_def getConnection_def
        is_object_def streaming_call_def streamed_post_def get_request_def restarting_backend_def
        disconnected_def shouldRestartGrain_def kjType_def session_calls_def reconnections_def
        requestHandler_catch_def setHasLoaded_def end_response_def writeHead_def
        fresh_response_def empty_world_def Let_def)

lemma gzip_replay_fails:
  "requestHandler_route api_proxy gzip_propfind = Buffered
   \<and> calls (snd (snd (requestHandler_buffered recovering_backend api_proxy gzip_propfind
        fresh_response empty_world))) =
       [GetGrain, GetMainView, GetViewInfo, SessionCall ''propfind'',
        ContinueGrain, GetMainView, GetViewInfo]
   \<and> statusCode (fst (snd (requestHandler_buffered recovering_backend api_proxy gzip_propfind
        fresh_response empty_world))) = 500"
  by (simp add: requestHandler_route_def requestHandler_buffered_def
        handleRequest.simps attempt_def select_call_def call_for_method_def translateResponse_def
        xmlContent_def maybeRetryAfterError_def resetConnection_def
        makeContext_def api_proxy_def js_truthy_def getSession_def getConnection_def
        is_object_def gzip_propfind_def get_request_def recovering_backend_def
        disconnected_def shouldRestartGrain_def kjType_def session_calls_def reconnections_def
        requestHandler_catch_def setHasLoaded_def end_response_def writeHead_def
        fresh_response_def empty_world_def Let_def)

end
